theory Spec2Isabelle
  imports Main
begin

section \<open>JavaScript \<open>Date\<close>, as far as the services use it\<close>

text \<open>
  A \<open>Date\<close> object holds a time value: the milliseconds since 1970-01-01T00:00:00Z, an
  \<^typ>\<open>int\<close> here. The functions below follow the ECMAScript definitions of \<open>Day\<close>,
  \<open>TimeWithinDay\<close>, \<open>DayFromYear\<close>, \<open>YearFromTime\<close>, \<open>MonthFromTime\<close>,
  \<open>DateFromTime\<close>, \<open>WeekDay\<close>, \<open>MakeDay\<close> and \<open>MakeDate\<close>.

  The local-time methods (\<open>getDay\<close>, \<open>getDate\<close>, \<open>setDate\<close>, \<open>setHours\<close>, ...) read
  the server's time zone. The model takes the zone as a parameter \<open>tz\<close>, the offset of
  local time from UTC in milliseconds, and takes it to be constant: daylight-saving
  transitions are outside the model.
\<close>

definition msPerDay :: int where
  "msPerDay = 86400000"

definition Day :: "int \<Rightarrow> int" where
  "Day t = t div msPerDay"

definition TimeWithinDay :: "int \<Rightarrow> int" where
  "TimeWithinDay t = t mod msPerDay"

definition DayFromYear :: "int \<Rightarrow> int" where
  "DayFromYear y =
     365 * (y - 1970) + (y - 1969) div 4 - (y - 1901) div 100 + (y - 1601) div 400"

definition InLeapYear :: "int \<Rightarrow> int" where
  "InLeapYear y = (if y mod 4 = 0 \<and> (y mod 400 = 0 \<or> y mod 100 \<noteq> 0) then 1 else 0)"

text \<open>
  \<open>YearFromTime\<close> is the largest year whose first day is not after the given day. The
  mean Gregorian year has 146097 / 400 days, which gives an estimate that is off by at
  most one year; the two comparisons settle it.
\<close>

definition YearFromDay :: "int \<Rightarrow> int" where
  "YearFromDay d =
     (let y0 = 1970 + (d * 400) div 146097
      in if DayFromYear (y0 + 1) \<le> d then y0 + 1
         else if DayFromYear y0 \<le> d then y0
         else y0 - 1)"

definition DayWithinYear :: "int \<Rightarrow> int" where
  "DayWithinYear d = d - DayFromYear (YearFromDay d)"

text \<open>The number of days of the year before month \<open>m\<close> (0 = January); \<open>lp\<close> is 1 in a leap year.\<close>

definition monthStart :: "int \<Rightarrow> int \<Rightarrow> int" where
  "monthStart m lp =
     (if m = 0 then 0 else if m = 1 then 31
      else if m = 2 then 59 + lp else if m = 3 then 90 + lp
      else if m = 4 then 120 + lp else if m = 5 then 151 + lp
      else if m = 6 then 181 + lp else if m = 7 then 212 + lp
      else if m = 8 then 243 + lp else if m = 9 then 273 + lp
      else if m = 10 then 304 + lp else 334 + lp)"

definition MonthFromDay :: "int \<Rightarrow> int" where
  "MonthFromDay d =
     (let w = DayWithinYear d; lp = InLeapYear (YearFromDay d)
      in if w < 31 then 0 else if w < 59 + lp then 1
         else if w < 90 + lp then 2 else if w < 120 + lp then 3
         else if w < 151 + lp then 4 else if w < 181 + lp then 5
         else if w < 212 + lp then 6 else if w < 243 + lp then 7
         else if w < 273 + lp then 8 else if w < 304 + lp then 9
         else if w < 334 + lp then 10 else 11)"

definition DateFromDay :: "int \<Rightarrow> int" where
  "DateFromDay d =
     DayWithinYear d - monthStart (MonthFromDay d) (InLeapYear (YearFromDay d)) + 1"

definition WeekDay :: "int \<Rightarrow> int" where
  "WeekDay t = (Day t + 4) mod 7"

definition MakeDay :: "int \<Rightarrow> int \<Rightarrow> int \<Rightarrow> int" where
  "MakeDay y m dt =
     (let ym = y + m div 12; mn = m mod 12
      in DayFromYear ym + monthStart mn (InLeapYear ym) + dt - 1)"

definition MakeDate :: "int \<Rightarrow> int \<Rightarrow> int" where
  "MakeDate day time = day * msPerDay + time"

subsection \<open>The methods of \<open>Date\<close>\<close>

text \<open>
  The time value of a valid \<open>Date\<close> lies within 8.64e15 ms of the epoch. \<open>TimeClip\<close>
  turns any other number into \<open>NaN\<close>, the time value of an invalid \<open>Date\<close>: \<open>None\<close> here.
  The getters below are those of a valid \<open>Date\<close>; on an invalid one each returns \<open>NaN\<close>,
  which the callers model by a case distinction.
\<close>

definition maxTime :: int where
  "maxTime = 8640000000000000"

definition TimeClip :: "int \<Rightarrow> int option" where
  "TimeClip t = (if \<bar>t\<bar> \<le> maxTime then Some t else None)"

definition getFullYear :: "int \<Rightarrow> int \<Rightarrow> int" where
  "getFullYear tz t = YearFromDay (Day (t + tz))"

definition getMonth :: "int \<Rightarrow> int \<Rightarrow> int" where
  "getMonth tz t = MonthFromDay (Day (t + tz))"

definition getDate :: "int \<Rightarrow> int \<Rightarrow> int" where
  "getDate tz t = DateFromDay (Day (t + tz))"

definition getDay :: "int \<Rightarrow> int \<Rightarrow> int" where
  "getDay tz t = WeekDay (t + tz)"

definition getUTCFullYear :: "int \<Rightarrow> int" where
  "getUTCFullYear t = YearFromDay (Day t)"

definition getUTCDate :: "int \<Rightarrow> int" where
  "getUTCDate t = DateFromDay (Day t)"

definition getUTCDay :: "int \<Rightarrow> int" where
  "getUTCDay t = WeekDay t"

text \<open>
  \<open>d.setDate(n)\<close> on a valid \<open>d\<close>: the day \<open>n\<close> of the month of \<open>d\<close>, local time of day
  kept, when that is a valid time value; otherwise \<open>d\<close> becomes invalid.
\<close>

definition setDate :: "int \<Rightarrow> int \<Rightarrow> int \<Rightarrow> int option" where
  "setDate tz t n =
     (let lt = t + tz
      in TimeClip (MakeDate (MakeDay (YearFromDay (Day lt)) (MonthFromDay (Day lt)) n)
                     (TimeWithinDay lt) - tz))"

definition setUTCDate :: "int \<Rightarrow> int \<Rightarrow> int option" where
  "setUTCDate t n =
     TimeClip (MakeDate (MakeDay (YearFromDay (Day t)) (MonthFromDay (Day t)) n)
                 (TimeWithinDay t))"

text \<open>
  \<open>d.setHours(0, 0, 0, 0)\<close>: local midnight of the local day of \<open>d\<close>, less than a day
  before \<open>d\<close>. The model leaves \<open>TimeClip\<close> out here: it is exact unless \<open>d\<close> lies
  within a day of the lower end of the range of \<open>Date\<close>.
\<close>

definition setHours0 :: "int \<Rightarrow> int \<Rightarrow> int" where
  "setHours0 tz t =
     (let lt = t + tz
      in MakeDate (Day lt) 0 - tz)"

text \<open>
  The time value of midnight UTC of a calendar day (month 0 = January), and the
  constructors \<open>new Date(y, m, d)\<close> (local midnight) and \<open>Date.UTC(y, m, d)\<close>. The two
  constructors read a year from 0 to 99 as a year of the twentieth century.
\<close>

definition midnight_UTC :: "int \<Rightarrow> int \<Rightarrow> int \<Rightarrow> int" where
  "midnight_UTC y m d = MakeDate (MakeDay y m d) 0"

definition full_year :: "int \<Rightarrow> int" where
  "full_year y = (if 0 \<le> y \<and> y \<le> 99 then 1900 + y else y)"

definition Date_local :: "int \<Rightarrow> int \<Rightarrow> int \<Rightarrow> int \<Rightarrow> int option" where
  "Date_local tz y m d = TimeClip (midnight_UTC (full_year y) m d - tz)"

definition Date_UTC :: "int \<Rightarrow> int \<Rightarrow> int \<Rightarrow> int option" where
  "Date_UTC y m d = TimeClip (midnight_UTC (full_year y) m d)"

subsection \<open>Shifting a date by whole days\<close>

text \<open>The loop of \<open>generateDates\<close> ends because of the last of these lemmas.\<close>

lemma MonthFromDay_range: "0 \<le> MonthFromDay d \<and> MonthFromDay d \<le> 11"
  by (simp add: MonthFromDay_def Let_def)

lemma MakeDay_roundtrip:
  "MakeDay (YearFromDay d) (MonthFromDay d) (DateFromDay d + k) = d + k"
proof -
  have r: "0 \<le> MonthFromDay d" "MonthFromDay d \<le> 11"
    using MonthFromDay_range by simp_all
  then have "MonthFromDay d div 12 = 0" "MonthFromDay d mod 12 = MonthFromDay d"
    by simp_all
  then show ?thesis
    by (simp add: MakeDay_def DateFromDay_def DayWithinYear_def Let_def)
qed

text \<open>
  \<open>d.setDate(d.getDate() + k)\<close> moves \<open>d\<close> by \<open>k\<close> days, whatever the month and year,
  as long as the result is a valid time value.
\<close>

lemma setDate_shift: "setDate tz t (getDate tz t + k) = TimeClip (t + k * msPerDay)"
proof -
  have "Day (t + tz) * msPerDay + TimeWithinDay (t + tz) = t + tz"
    by (simp add: Day_def TimeWithinDay_def)
  moreover have "setDate tz t (getDate tz t + k) =
      TimeClip ((Day (t + tz) + k) * msPerDay + TimeWithinDay (t + tz) - tz)"
    by (simp add: setDate_def getDate_def MakeDate_def MakeDay_roundtrip Let_def)
  moreover have "(Day (t + tz) + k) * msPerDay + TimeWithinDay (t + tz) - tz =
      Day (t + tz) * msPerDay + TimeWithinDay (t + tz) - tz + k * msPerDay"
    by (simp add: algebra_simps)
  ultimately show ?thesis
    by simp
qed

lemma TimeClip_Some: "TimeClip t = Some u \<Longrightarrow> u = t \<and> \<bar>t\<bar> \<le> maxTime"
  by (simp add: TimeClip_def split: if_splits)

lemma setDate_next: "setDate tz t (getDate tz t + 1) = Some u \<Longrightarrow> u = t + msPerDay"
  using setDate_shift [of tz t 1] TimeClip_Some [of "t + 1 * msPerDay" u] by simp

subsection \<open>Numbers as strings\<close>

text \<open>The decimal digits of a number that is not negative.\<close>

function String_nat :: "int \<Rightarrow> string" where
  "String_nat n =
     (if n < 10 then [''0123456789'' ! nat n]
      else String_nat (n div 10) @ [''0123456789'' ! nat (n mod 10)])"
  by pat_completeness auto
termination
  by (relation "measure nat") auto

declare String_nat.simps [simp del]

definition String_int :: "int \<Rightarrow> string" where
  "String_int i = (if i < 0 then CHR ''-'' # String_nat (- i) else String_nat i)"

text \<open>A number that may be \<open>NaN\<close>, as a string.\<close>

definition String_num :: "int option \<Rightarrow> string" where
  "String_num v = (case v of None \<Rightarrow> ''NaN'' | Some i \<Rightarrow> String_int i)"

definition padStart2 :: "string \<Rightarrow> string" where
  "padStart2 s = replicate (2 - length s) CHR ''0'' @ s"

text \<open>\<open>x % 2 === 0\<close> for a number that may be \<open>NaN\<close>.\<close>

definition mod2_is_zero :: "int option \<Rightarrow> bool" where
  "mod2_is_zero v = (case v of None \<Rightarrow> False | Some i \<Rightarrow> i mod 2 = 0)"

section \<open>services/week.service.js\<close>

text \<open>\<open>formatLocalDate\<close> of a \<open>Date\<close> that may be invalid: its getters then return \<open>NaN\<close>.\<close>

definition formatLocalDate :: "int \<Rightarrow> int option \<Rightarrow> string" where
  "formatLocalDate tz date =
     (let year = map_option (getFullYear tz) date;
          month = padStart2 (String_num (map_option (\<lambda>t. getMonth tz t + 1) date));
          day = padStart2 (String_num (map_option (getDate tz) date))
      in String_num year @ ''-'' @ month @ ''-'' @ day)"

text \<open>The object returned; \<open>weekNumber\<close> is \<open>None\<close> when it is \<open>NaN\<close>.\<close>

record WeekInfo =
  weekNumber :: "int option"
  isEven :: bool
  weekType :: string
  weekStart :: string
  weekEnd :: string

text \<open>
  The three \<open>Date\<close> objects that \<open>getWeekInfo\<close> computes from the current time \<open>now\<close>
  (the source reads it with \<open>new Date()\<close>, a valid date): \<open>academicYearStart\<close>,
  \<open>weekStart\<close> and \<open>weekEnd\<close>. Each may be invalid; a date copied from an invalid one,
  or set from \<open>NaN\<close>, is invalid.
\<close>

definition academicYearStart_of :: "int \<Rightarrow> int \<Rightarrow> int option" where
  "academicYearStart_of tz now =
     (let year = (if getMonth tz now \<ge> 8 then getFullYear tz now else getFullYear tz now - 1)
      in Date_local tz year 8 1)"

definition weekStart_of :: "int \<Rightarrow> int \<Rightarrow> int \<Rightarrow> int option" where
  "weekStart_of tz now weekOffset =
     (case setDate tz now (getDate tz now + weekOffset * 7) of
        None \<Rightarrow> None
      | Some targetDate \<Rightarrow>
          (let dayOfWeek = getDay tz targetDate;
               diffToMonday = (if dayOfWeek = 0 then - 6 else 1 - dayOfWeek)
           in setDate tz targetDate (getDate tz targetDate + diffToMonday)))"

definition weekEnd_of :: "int \<Rightarrow> int \<Rightarrow> int \<Rightarrow> int option" where
  "weekEnd_of tz now weekOffset =
     (case weekStart_of tz now weekOffset of
        None \<Rightarrow> None
      | Some ws \<Rightarrow> setDate tz ws (getDate tz ws + 6))"

text \<open>
  The week type is the Russian word for even or odd in the source; the model names it
  in ASCII.
\<close>

definition getWeekInfo :: "int \<Rightarrow> int \<Rightarrow> int \<Rightarrow> WeekInfo" where
  "getWeekInfo tz now weekOffset =
     (let academicYearStart = academicYearStart_of tz now;
          weekStart = weekStart_of tz now weekOffset;
          weekEnd = weekEnd_of tz now weekOffset;
          diffDays = (case (weekStart, academicYearStart) of
                        (Some ws, Some ays) \<Rightarrow> Some ((ws - ays) div (1000 * 60 * 60 * 24))
                      | _ \<Rightarrow> None);
          weekNumber = map_option (\<lambda>d. d div 7 + 1) diffDays
      in \<lparr> weekNumber = weekNumber,
           isEven = mod2_is_zero weekNumber,
           weekType = (if mod2_is_zero weekNumber then ''chetnaya'' else ''nechetnaya''),
           weekStart = formatLocalDate tz weekStart,
           weekEnd = formatLocalDate tz weekEnd \<rparr>)"

section \<open>services/generator.service.js\<close>

text \<open>
  \<open>new Date('2023-09-01')\<close> and \<open>new Date('2023-12-31')\<close>: a date-only ISO string is
  read as midnight UTC.
\<close>

definition SEMESTER_START :: int where
  "SEMESTER_START = midnight_UTC 2023 8 1"

definition SEMESTER_END :: int where
  "SEMESTER_END = midnight_UTC 2023 11 31"

text \<open>
  \<open>getWeekNumber\<close>: the ISO-8601 week of the local calendar day of \<open>d\<close>, or \<open>NaN\<close> when
  one of the dates it builds is invalid. Both \<open>d\<close> and \<open>yearStart\<close> are UTC midnights, so
  \<open>(d - yearStart) / 86400000\<close> is a whole number and \<open>Math.ceil(x / 7)\<close> is
  \<open>- ((- x) div 7)\<close>.
\<close>

definition getWeekNumber :: "int \<Rightarrow> int \<Rightarrow> int option" where
  "getWeekNumber tz d0 =
     (case Date_UTC (getFullYear tz d0) (getMonth tz d0) (getDate tz d0) of
        None \<Rightarrow> None
      | Some d1 \<Rightarrow>
     (case setUTCDate d1
             (getUTCDate d1 + 4 - (if getUTCDay d1 = 0 then 7 else getUTCDay d1)) of
        None \<Rightarrow> None
      | Some d2 \<Rightarrow>
     (case Date_UTC (getUTCFullYear d2) 0 1 of
        None \<Rightarrow> None
      | Some yearStart \<Rightarrow>
          Some (- ((- ((d2 - yearStart) div 86400000 + 1)) div 7)))))"

text \<open>
  The \<open>match\<close> flag of the loop body: 0 = every week, 1 = even weeks, 2 = odd weeks.
  The variables \<open>weekType\<close> and \<open>isEven\<close> carry a prime here, the plain names being
  fields of \<open>WeekInfo\<close>.
\<close>

definition week_match :: "int \<Rightarrow> bool \<Rightarrow> bool" where
  "week_match weekType' isEven' =
     (if weekType' = 0 then True
      else if weekType' = 1 \<and> isEven' then True
      else if weekType' = 2 \<and> \<not> isEven' then True
      else False)"

text \<open>
  The \<open>while\<close> loop of \<open>generateDates\<close>, from the value of \<open>currentDate\<close> and the
  \<open>dates\<close> pushed so far. The test \<open>currentDate <= SEMESTER_END\<close> is false of an invalid
  \<open>currentDate\<close>.
\<close>

function generateDates_loop ::
  "int \<Rightarrow> int \<Rightarrow> int \<Rightarrow> int option \<Rightarrow> int list \<Rightarrow> int list" where
  "generateDates_loop tz targetJsDay weekType' None dates = dates"
| "generateDates_loop tz targetJsDay weekType' (Some currentDate) dates =
     (if currentDate \<le> SEMESTER_END
      then generateDates_loop tz targetJsDay weekType'
             (setDate tz currentDate (getDate tz currentDate + 1))
             (if getDay tz currentDate = targetJsDay
              then (let isEven' = mod2_is_zero (getWeekNumber tz currentDate)
                    in if week_match weekType' isEven' then dates @ [currentDate] else dates)
              else dates)
      else dates)"
  by pat_completeness auto
termination
proof (relation "measure (\<lambda>(tz, j, w, c, ds).
    (case c of None \<Rightarrow> 0 | Some t \<Rightarrow> nat (SEMESTER_END - t + 1) + 1))")
  show "wf (measure (\<lambda>(tz, j, w, c, ds).
    (case c of None \<Rightarrow> 0 | Some t \<Rightarrow> nat (SEMESTER_END - t + 1) + 1)))"
    by simp
next
  fix tz targetJsDay weekType' :: int and currentDate :: int and dates :: "int list"
  assume le: "currentDate \<le> SEMESTER_END"
  let ?next = "setDate tz currentDate (getDate tz currentDate + 1)"
  let ?ds = "if getDay tz currentDate = targetJsDay
             then (let isEven' = mod2_is_zero (getWeekNumber tz currentDate)
                   in if week_match weekType' isEven' then dates @ [currentDate] else dates)
             else dates"
  have "(case ?next of None \<Rightarrow> 0 | Some t \<Rightarrow> nat (SEMESTER_END - t + 1) + 1) <
      nat (SEMESTER_END - currentDate + 1) + 1"
  proof (cases ?next)
    case None
    then show ?thesis by simp
  next
    case (Some u)
    have "u = currentDate + msPerDay"
      using setDate_next [OF Some] .
    then show ?thesis
      using le Some by (simp add: msPerDay_def)
  qed
  then show "((tz, targetJsDay, weekType', ?next, ?ds),
      (tz, targetJsDay, weekType', Some currentDate, dates)) \<in>
    measure (\<lambda>(tz, j, w, c, ds).
      (case c of None \<Rightarrow> 0 | Some t \<Rightarrow> nat (SEMESTER_END - t + 1) + 1))"
    by simp
qed

declare generateDates_loop.simps [simp del]

text \<open>\<open>currentDate\<close> starts as a copy of \<open>SEMESTER_START\<close>.\<close>

definition generateDates :: "int \<Rightarrow> int \<Rightarrow> int \<Rightarrow> int list" where
  "generateDates tz dayOfWeek weekType' =
     (let targetJsDay = dayOfWeek + 1
      in generateDates_loop tz targetJsDay weekType' (Some SEMESTER_START) [])"

section \<open>JavaScript values and the audit log\<close>

text \<open>
  The values that reach \<open>logChange\<close>: JSON data, \<open>undefined\<close> and \<open>null\<close>.
\<close>

datatype jsval =
    JUndefined
  | JNull
  | JBool bool
  | JNum int
  | JStr string
  | JArr "jsval list"
  | JObj "(string \<times> jsval) list"

datatype js_error = TypeError | Error string | DbError

definition truthy :: "jsval \<Rightarrow> bool" where
  "truthy v =
     (case v of
        JUndefined \<Rightarrow> False
      | JNull \<Rightarrow> False
      | JBool b \<Rightarrow> b
      | JNum n \<Rightarrow> n \<noteq> 0
      | JStr s \<Rightarrow> s \<noteq> []
      | JArr _ \<Rightarrow> True
      | JObj _ \<Rightarrow> True)"

text \<open>
  Reading the property \<open>k\<close> of a value that can be destructured. A number, a string, a
  boolean or an array has none of the properties that \<open>logChange\<close> reads.
\<close>

definition get_prop :: "jsval \<Rightarrow> string \<Rightarrow> jsval" where
  "get_prop v k =
     (case v of
        JObj kvs \<Rightarrow> (case map_of kvs k of Some x \<Rightarrow> x | None \<Rightarrow> JUndefined)
      | _ \<Rightarrow> JUndefined)"

text \<open>A parameter default \<open>= null\<close> applies to \<open>undefined\<close> only.\<close>

definition default_null :: "jsval \<Rightarrow> jsval" where
  "default_null v = (if v = JUndefined then JNull else v)"

text \<open>The driver sends \<open>undefined\<close> as \<open>NULL\<close>.\<close>

definition pg_param :: "jsval \<Rightarrow> jsval" where
  "pg_param v = (if v = JUndefined then JNull else v)"

text \<open>
  A row of \<open>schedule_changes\<close>. The two JSON columns hold the value that the source
  serialises with \<open>JSON.stringify\<close>.
\<close>

record audit_row =
  admin_id :: jsval
  action_type :: jsval
  target_type :: jsval
  target_id :: jsval
  old_value :: jsval
  new_value :: jsval

section \<open>The database\<close>

text \<open>
  The source uses the table \<open>lessons\<close> in two shapes: rows with a calendar date
  (\<open>lesson_date\<close>, written by \<open>updateScheduleByDay\<close>) and weekly templates (\<open>day\<close>,
  \<open>week\<close>, \<open>teacher\<close>, used by the bulk operations). The model keeps them as two
  tables over one id sequence.
\<close>

record lesson_row =
  l_id :: int
  l_group_id :: int
  l_lesson_date :: int
  l_start_time :: string
  l_end_time :: string
  l_subject :: string
  l_teacher_id :: "int option"
  l_room :: string
  l_type :: string

record template_row =
  t_id :: int
  t_group_id :: int
  t_day :: int
  t_start_time :: string
  t_end_time :: string
  t_subject :: string
  t_teacher_id :: "int option"
  t_teacher :: string
  t_room :: string
  t_type :: string
  t_week :: int

datatype query =
    QBegin | QCommit | QRollback
  | QSelectDay | QDeleteDay | QInsertLesson
  | QSelectWeek | QDeleteWeek | QCopyWeek
  | QSelectTeacher | QUpdateTeacher
  | QInsertChange

text \<open>
  \<open>tx_snapshot\<close> is the content of \<open>lessons\<close> when the open transaction began, to which
  \<open>ROLLBACK\<close> returns; \<open>queries\<close> lists the statements sent so far.
\<close>

record world =
  tbl_lessons :: "lesson_row list"
  tbl_templates :: "template_row list"
  tbl_schedule_changes :: "audit_row list"
  lessons_id_seq :: int
  tx_snapshot :: "lesson_row list option"
  queries :: "query list"

text \<open>
  What the code does not decide: the server's time zone, how \<open>new Date(string)\<close> reads
  a string (\<open>None\<close> is an invalid date), how PostgreSQL reads a date (\<open>None\<close> is a syntax
  error; the result is a day number), which rows the constraints and column types of
  \<open>lessons\<close> and of \<open>schedule_changes\<close> accept, and which statements fail for a reason
  of the connection (by their position among all statements sent).
  \<open>pool.connect()\<close> and \<open>ROLLBACK\<close> are taken to succeed.
\<close>

record env =
  tz_offset :: int
  Date_parse :: "string \<Rightarrow> int option"
  pg_date :: "string \<Rightarrow> int option"
  insert_ok :: "lesson_row \<Rightarrow> bool"
  audit_ok :: "audit_row \<Rightarrow> bool"
  fault :: "nat \<Rightarrow> bool"

definition faulted :: "env \<Rightarrow> world \<Rightarrow> bool" where
  "faulted e w = fault e (length (queries w))"

definition sent :: "query \<Rightarrow> world \<Rightarrow> world" where
  "sent q w = w\<lparr>queries := queries w @ [q]\<rparr>"

section \<open>services/audit.service.js\<close>

text \<open>
  \<open>logChange\<close> destructures its first argument. Destructuring \<open>undefined\<close> or \<open>null\<close>
  throws before the \<open>try\<close>; every failure of the \<open>INSERT\<close> is caught and logged.
\<close>

definition logChange :: "env \<Rightarrow> jsval list \<Rightarrow> world \<Rightarrow> (js_error + unit) \<times> world" where
  "logChange e args w =
     (let arg = (case args of [] \<Rightarrow> JUndefined | a # _ \<Rightarrow> a)
      in if arg = JUndefined \<or> arg = JNull then (Inl TypeError, w)
         else
           (let adminId = get_prop arg ''adminId'';
                actionType = get_prop arg ''actionType'';
                targetType = get_prop arg ''targetType'';
                targetId = default_null (get_prop arg ''targetId'');
                oldValue = default_null (get_prop arg ''oldValue'');
                newValue = default_null (get_prop arg ''newValue'');
                r = \<lparr> admin_id = pg_param adminId,
                      action_type = pg_param actionType,
                      target_type = pg_param targetType,
                      target_id = pg_param targetId,
                      old_value = pg_param (if truthy oldValue then oldValue else JNull),
                      new_value = pg_param (if truthy newValue then newValue else JNull) \<rparr>;
                w1 = sent QInsertChange w
            in if faulted e w then (Inr (), w1)
               else if audit_ok e r
                 then (Inr (), w1\<lparr>tbl_schedule_changes := tbl_schedule_changes w1 @ [r]\<rparr>)
               else (Inr (), w1)))"

section \<open>controllers/scheduleDay.controllers.js\<close>

text \<open>
  A lesson of the request body. A field is \<open>None\<close> when the entry lacks it (or gives
  \<open>null\<close>); a field is falsy when it is absent or empty (for \<open>teacher_id\<close>: absent or 0).
\<close>

record lesson_input =
  start_time :: "string option"
  end_time :: "string option"
  subject :: "string option"
  teacher_id :: "int option"
  room :: "string option"
  type :: "string option"

definition falsy :: "string option \<Rightarrow> bool" where
  "falsy v = (case v of None \<Rightarrow> True | Some s \<Rightarrow> s = [])"

definition str_of :: "string option \<Rightarrow> string" where
  "str_of v = (case v of None \<Rightarrow> [] | Some s \<Rightarrow> s)"

record user =
  user_id :: int
  role :: string

text \<open>
  The messages of the responses are Russian sentences in the source; the model names
  them. \<open>AdminOnly\<close>: only an administrator may edit the schedule. \<open>FieldsRequired\<close>:
  date, groupId and lessons are required. \<open>PastDate\<close>: the schedule of past dates
  cannot be edited. \<open>Saved\<close>: the schedule of the day is saved. \<open>ServerError\<close>: server
  error while saving the schedule.
\<close>

datatype msg = AdminOnly | FieldsRequired | PastDate | Saved | ServerError

record response =
  status :: nat
  message :: msg

subsection \<open>The statements of the transaction\<close>

definition client_begin :: "env \<Rightarrow> world \<Rightarrow> (js_error + unit) \<times> world" where
  "client_begin e w =
     (if faulted e w then (Inl DbError, sent QBegin w)
      else (Inr (), (sent QBegin w)\<lparr>tx_snapshot := Some (tbl_lessons w)\<rparr>))"

definition on_day :: "int \<Rightarrow> int \<Rightarrow> lesson_row \<Rightarrow> bool" where
  "on_day d g r = (l_lesson_date r = d \<and> l_group_id r = g)"

definition client_select_day ::
  "env \<Rightarrow> string \<Rightarrow> int \<Rightarrow> world \<Rightarrow> (js_error + lesson_row list) \<times> world" where
  "client_select_day e date groupId w =
     (if faulted e w then (Inl DbError, sent QSelectDay w)
      else (case pg_date e date of
              None \<Rightarrow> (Inl DbError, sent QSelectDay w)
            | Some d \<Rightarrow> (Inr (filter (on_day d groupId) (tbl_lessons w)), sent QSelectDay w)))"

definition client_delete_day ::
  "env \<Rightarrow> string \<Rightarrow> int \<Rightarrow> world \<Rightarrow> (js_error + unit) \<times> world" where
  "client_delete_day e date groupId w =
     (if faulted e w then (Inl DbError, sent QDeleteDay w)
      else (case pg_date e date of
              None \<Rightarrow> (Inl DbError, sent QDeleteDay w)
            | Some d \<Rightarrow>
                (Inr (), (sent QDeleteDay w)
                   \<lparr>tbl_lessons := filter (\<lambda>r. \<not> on_day d groupId r) (tbl_lessons w)\<rparr>)))"

text \<open>
  The \<open>INSERT\<close> of one lesson. The id comes from the sequence, which moves on whether or
  not the row is accepted.
\<close>

definition client_insert_lesson ::
  "env \<Rightarrow> int \<Rightarrow> string \<Rightarrow> string \<Rightarrow> string \<Rightarrow> string \<Rightarrow> int option \<Rightarrow> string \<Rightarrow> string
     \<Rightarrow> world \<Rightarrow> (js_error + unit) \<times> world" where
  "client_insert_lesson e groupId date st et sb tid rm ty w =
     (if faulted e w then (Inl DbError, sent QInsertLesson w)
      else (case pg_date e date of
              None \<Rightarrow> (Inl DbError, sent QInsertLesson w)
            | Some d \<Rightarrow>
                (let r = \<lparr> l_id = lessons_id_seq w, l_group_id = groupId, l_lesson_date = d,
                           l_start_time = st, l_end_time = et, l_subject = sb,
                           l_teacher_id = tid, l_room = rm, l_type = ty \<rparr>;
                     w1 = (sent QInsertLesson w)\<lparr>lessons_id_seq := lessons_id_seq w + 1\<rparr>
                 in if insert_ok e r
                    then (Inr (), w1\<lparr>tbl_lessons := tbl_lessons w1 @ [r]\<rparr>)
                    else (Inl DbError, w1))))"

definition client_commit :: "env \<Rightarrow> world \<Rightarrow> (js_error + unit) \<times> world" where
  "client_commit e w =
     (if faulted e w then (Inl DbError, sent QCommit w)
      else (Inr (), (sent QCommit w)\<lparr>tx_snapshot := None\<rparr>))"

definition client_rollback :: "world \<Rightarrow> world" where
  "client_rollback w =
     (case tx_snapshot w of
        None \<Rightarrow> sent QRollback w
      | Some old \<Rightarrow> (sent QRollback w)\<lparr>tbl_lessons := old, tx_snapshot := None\<rparr>)"

subsection \<open>\<open>updateScheduleByDay\<close>\<close>

text \<open>The \<open>for\<close> loop over the lessons of the request.\<close>

fun insert_lessons ::
  "env \<Rightarrow> string \<Rightarrow> int \<Rightarrow> lesson_input list \<Rightarrow> world \<Rightarrow> (js_error + unit) \<times> world" where
  "insert_lessons e date groupId [] w = (Inr (), w)"
| "insert_lessons e date groupId (lesson # rest) w =
     (if falsy (start_time lesson) \<or> falsy (end_time lesson) \<or> falsy (subject lesson)
         \<or> falsy (room lesson) \<or> falsy (type lesson)
      then (Inl (Error ''bad lesson data''), w)
      else
        (case client_insert_lesson e groupId date
                (str_of (start_time lesson)) (str_of (end_time lesson))
                (str_of (subject lesson))
                (if teacher_id lesson = Some 0 then None else teacher_id lesson)
                (str_of (room lesson)) (str_of (type lesson)) w of
           (Inl err, w1) \<Rightarrow> (Inl err, w1)
         | (Inr _, w1) \<Rightarrow> insert_lessons e date groupId rest w1))"

definition opt_js :: "string option \<Rightarrow> jsval" where
  "opt_js v = (case v of None \<Rightarrow> JUndefined | Some s \<Rightarrow> JStr s)"

definition lesson_js :: "lesson_input \<Rightarrow> jsval" where
  "lesson_js l =
     JObj [(''start_time'', opt_js (start_time l)), (''end_time'', opt_js (end_time l)),
           (''subject'', opt_js (subject l)),
           (''teacher_id'', (case teacher_id l of None \<Rightarrow> JUndefined | Some i \<Rightarrow> JNum i)),
           (''room'', opt_js (room l)), (''type'', opt_js (type l))]"

definition row_js :: "lesson_row \<Rightarrow> jsval" where
  "row_js r =
     JObj [(''id'', JNum (l_id r)), (''group_id'', JNum (l_group_id r)),
           (''lesson_date'', JNum (l_lesson_date r)),
           (''start_time'', JStr (l_start_time r)), (''end_time'', JStr (l_end_time r)),
           (''subject'', JStr (l_subject r)),
           (''teacher_id'', (case l_teacher_id r of None \<Rightarrow> JNull | Some i \<Rightarrow> JNum i)),
           (''room'', JStr (l_room r)), (''type'', JStr (l_type r))]"

text \<open>The body of the \<open>try\<close> block, up to the response.\<close>

definition update_day_try ::
  "env \<Rightarrow> user \<Rightarrow> string \<Rightarrow> int \<Rightarrow> lesson_input list \<Rightarrow> world \<Rightarrow> (js_error + unit) \<times> world" where
  "update_day_try e u date groupId lessons w =
     (case client_begin e w of
        (Inl err, w1) \<Rightarrow> (Inl err, w1)
      | (Inr _, w1) \<Rightarrow>
     (case client_select_day e date groupId w1 of
        (Inl err, w2) \<Rightarrow> (Inl err, w2)
      | (Inr oldLessons, w2) \<Rightarrow>
     (case client_delete_day e date groupId w2 of
        (Inl err, w3) \<Rightarrow> (Inl err, w3)
      | (Inr _, w3) \<Rightarrow>
     (case insert_lessons e date groupId lessons w3 of
        (Inl err, w4) \<Rightarrow> (Inl err, w4)
      | (Inr _, w4) \<Rightarrow>
     (case client_commit e w4 of
        (Inl err, w5) \<Rightarrow> (Inl err, w5)
      | (Inr _, w5) \<Rightarrow>
          logChange e
            [JObj [(''adminId'', JNum (user_id u)),
                   (''actionType'', JStr ''update_schedule_day''),
                   (''targetType'', JStr ''schedule_day''),
                   (''targetId'', JNull),
                   (''oldValue'', JObj [(''date'', JStr date),
                                        (''lessons'', JArr (map row_js oldLessons))]),
                   (''newValue'', JObj [(''date'', JStr date),
                                        (''groupId'', JNum groupId),
                                        (''lessons'', JArr (map lesson_js lessons))])]]
            w5)))))"

text \<open>\<open>a < b\<close> on dates: false when either is invalid.\<close>

definition date_lt :: "int option \<Rightarrow> int option \<Rightarrow> bool" where
  "date_lt a b = (case (a, b) of (Some x, Some y) \<Rightarrow> x < y | _ \<Rightarrow> False)"

text \<open>
  The handler, at the time \<open>now\<close>, for the authenticated user \<open>u\<close> and the body fields
  \<open>date\<close>, \<open>groupId\<close> and \<open>lessons\<close> (\<open>None\<close>: not in the body, or \<open>lessons\<close> not an
  array).
\<close>

definition updateScheduleByDay ::
  "env \<Rightarrow> int \<Rightarrow> user \<Rightarrow> string option \<Rightarrow> int option \<Rightarrow> lesson_input list option \<Rightarrow> world
     \<Rightarrow> response \<times> world" where
  "updateScheduleByDay e now u date groupId lessons w =
     (if role u \<noteq> ''admin'' then (\<lparr>status = 403, message = AdminOnly\<rparr>, w)
      else
        (case (date, groupId, lessons) of
           (Some d, Some g, Some ls) \<Rightarrow>
             (if d = [] \<or> g = 0 then (\<lparr>status = 400, message = FieldsRequired\<rparr>, w)
              else
                (let today = Some (setHours0 (tz_offset e) now);
                     scheduleDate = map_option (setHours0 (tz_offset e)) (Date_parse e d)
                 in if date_lt scheduleDate today
                    then (\<lparr>status = 400, message = PastDate\<rparr>, w)
                    else
                      (case update_day_try e u d g ls w of
                         (Inr _, w1) \<Rightarrow> (\<lparr>status = 200, message = Saved\<rparr>, w1)
                       | (Inl err, w1) \<Rightarrow>
                           (\<lparr>status = 500, message = ServerError\<rparr>, client_rollback w1))))
         | _ \<Rightarrow> (\<lparr>status = 400, message = FieldsRequired\<rparr>, w)))"

section \<open>controllers/admin.controller.js: the bulk operations\<close>

text \<open>
  The three handlers send each statement through \<open>pool.query\<close>, outside any
  transaction: a statement that succeeds is final.
\<close>

definition in_week :: "int \<Rightarrow> int \<Rightarrow> template_row \<Rightarrow> bool" where
  "in_week g wk r = (t_group_id r = g \<and> t_week r = wk)"

definition pool_select_week ::
  "env \<Rightarrow> int \<Rightarrow> int \<Rightarrow> world \<Rightarrow> (js_error + template_row list) \<times> world" where
  "pool_select_week e g wk w =
     (if faulted e w then (Inl DbError, sent QSelectWeek w)
      else (Inr (filter (in_week g wk) (tbl_templates w)), sent QSelectWeek w))"

text \<open>\<open>DELETE FROM lessons WHERE group_id = $1 AND week = $2\<close>; the result is \<open>rowCount\<close>.\<close>

definition pool_delete_week :: "env \<Rightarrow> int \<Rightarrow> int \<Rightarrow> world \<Rightarrow> (js_error + nat) \<times> world" where
  "pool_delete_week e g wk w =
     (if faulted e w then (Inl DbError, sent QDeleteWeek w)
      else (Inr (length (filter (in_week g wk) (tbl_templates w))),
            (sent QDeleteWeek w)
              \<lparr>tbl_templates := filter (\<lambda>r. \<not> in_week g wk r) (tbl_templates w)\<rparr>))"

text \<open>
  \<open>INSERT INTO lessons (...) SELECT $1, day, ..., type, $2 FROM lessons WHERE group_id = $1
  AND week = $3\<close>: the rows of the group and week \<open>$3\<close> that the table holds when the
  statement runs, copied under new ids with the week \<open>$2\<close>. The column \<open>teacher_id\<close> is
  not copied.
\<close>

definition copy_row :: "int \<Rightarrow> int \<Rightarrow> int \<Rightarrow> template_row \<Rightarrow> template_row" where
  "copy_row i g wk r =
     \<lparr> t_id = i, t_group_id = g, t_day = t_day r,
       t_start_time = t_start_time r, t_end_time = t_end_time r, t_subject = t_subject r,
       t_teacher_id = None, t_teacher = t_teacher r, t_room = t_room r, t_type = t_type r,
       t_week = wk \<rparr>"

definition pool_copy_week ::
  "env \<Rightarrow> int \<Rightarrow> int \<Rightarrow> int \<Rightarrow> world \<Rightarrow> (js_error + unit) \<times> world" where
  "pool_copy_week e g to_wk from_wk w =
     (if faulted e w then (Inl DbError, sent QCopyWeek w)
      else
        (let src = filter (in_week g from_wk) (tbl_templates w);
             new = map (\<lambda>(i, r). copy_row (lessons_id_seq w + int i) g to_wk r)
                     (enumerate 0 src)
         in (Inr (), (sent QCopyWeek w)
                \<lparr>tbl_templates := tbl_templates w @ new,
                 lessons_id_seq := lessons_id_seq w + int (length src)\<rparr>)))"

definition pool_select_teacher ::
  "env \<Rightarrow> int \<Rightarrow> string \<Rightarrow> world \<Rightarrow> (js_error + template_row list) \<times> world" where
  "pool_select_teacher e g name w =
     (if faulted e w then (Inl DbError, sent QSelectTeacher w)
      else (Inr (filter (\<lambda>r. t_group_id r = g \<and> t_teacher r = name) (tbl_templates w)),
            sent QSelectTeacher w))"

text \<open>\<open>UPDATE lessons SET teacher = $1 WHERE group_id = $2 AND teacher = $3\<close>, with \<open>rowCount\<close>.\<close>

definition pool_update_teacher ::
  "env \<Rightarrow> string \<Rightarrow> int \<Rightarrow> string \<Rightarrow> world \<Rightarrow> (js_error + nat) \<times> world" where
  "pool_update_teacher e new_name g old_name w =
     (if faulted e w then (Inl DbError, sent QUpdateTeacher w)
      else (Inr (length (filter (\<lambda>r. t_group_id r = g \<and> t_teacher r = old_name)
                   (tbl_templates w))),
            (sent QUpdateTeacher w)
              \<lparr>tbl_templates :=
                 map (\<lambda>r. if t_group_id r = g \<and> t_teacher r = old_name
                           then r\<lparr>t_teacher := new_name\<rparr> else r)
                   (tbl_templates w)\<rparr>))"

text \<open>
  \<open>String.prototype.trim\<close>. A string is its sequence of UTF-8 bytes here. The white space
  and the line terminators of JavaScript are U+0009 to U+000D, U+0020, U+00A0, U+1680,
  U+2000 to U+200A, U+2028, U+2029, U+202F, U+205F, U+3000 and U+FEFF.
\<close>

definition js_spaces :: "string list" where
  "js_spaces =
     [[CHR 0x09], [CHR 0x0A], [CHR 0x0B], [CHR 0x0C], [CHR 0x0D], [CHR 0x20],
      [CHR 0xC2, CHR 0xA0],
      [CHR 0xE1, CHR 0x9A, CHR 0x80],
      [CHR 0xE2, CHR 0x80, CHR 0x80], [CHR 0xE2, CHR 0x80, CHR 0x81],
      [CHR 0xE2, CHR 0x80, CHR 0x82], [CHR 0xE2, CHR 0x80, CHR 0x83],
      [CHR 0xE2, CHR 0x80, CHR 0x84], [CHR 0xE2, CHR 0x80, CHR 0x85],
      [CHR 0xE2, CHR 0x80, CHR 0x86], [CHR 0xE2, CHR 0x80, CHR 0x87],
      [CHR 0xE2, CHR 0x80, CHR 0x88], [CHR 0xE2, CHR 0x80, CHR 0x89],
      [CHR 0xE2, CHR 0x80, CHR 0x8A],
      [CHR 0xE2, CHR 0x80, CHR 0xA8], [CHR 0xE2, CHR 0x80, CHR 0xA9],
      [CHR 0xE2, CHR 0x80, CHR 0xAF],
      [CHR 0xE2, CHR 0x81, CHR 0x9F],
      [CHR 0xE3, CHR 0x80, CHR 0x80],
      [CHR 0xEF, CHR 0xBB, CHR 0xBF]]"

text \<open>
  The length of the first of the sequences \<open>ws\<close> that \<open>s\<close> starts with, 0 when it starts
  with none; \<open>strip_start\<close> removes such sequences from the start of \<open>s\<close> until none is
  left. The end of a string is the start of its reverse.
\<close>

definition space_prefix :: "string list \<Rightarrow> string \<Rightarrow> nat" where
  "space_prefix ws s =
     (case find (\<lambda>w. take (length w) s = w) ws of None \<Rightarrow> 0 | Some w \<Rightarrow> length w)"

lemma space_prefix_nonempty:
  "0 < space_prefix ws s \<Longrightarrow> length s - space_prefix ws s < length s"
proof -
  assume p: "0 < space_prefix ws s"
  then have "s \<noteq> []"
    by (auto simp: space_prefix_def find_Some_iff split: option.splits)
  then show ?thesis
    using p by (cases s) simp_all
qed

function strip_start :: "string list \<Rightarrow> string \<Rightarrow> string" where
  "strip_start ws s =
     (if space_prefix ws s = 0 then s else strip_start ws (drop (space_prefix ws s) s))"
  by pat_completeness auto
termination
  by (relation "measure (\<lambda>(ws, s). length s)") (simp_all add: space_prefix_nonempty)

declare strip_start.simps [simp del]

definition trim :: "string \<Rightarrow> string" where
  "trim s = rev (strip_start (map rev js_spaces) (rev (strip_start js_spaces s)))"

text \<open>
  The responses. \<open>BulkFieldsRequired\<close>: the request lacks one of the fields that the
  handler requires. \<open>NothingToCopy\<close>: no lessons to copy. \<open>WeekCopied f t\<close>: the week is
  copied (week f to t). \<open>Deleted n\<close>, \<open>Replaced n\<close>: n lessons deleted, replaced.
  \<open>InternalError\<close>: server error.
\<close>

datatype bulk_msg =
    BulkFieldsRequired | NothingToCopy | WeekCopied int int
  | Deleted nat | Replaced nat | InternalError

record bulk_response =
  bulk_status :: nat
  bulk_message :: bulk_msg

text \<open>
  The body of the \<open>try\<close> block of \<open>copyWeek\<close>. It calls \<open>logChange\<close> with seven
  positional arguments; the last is a description of the copy.
\<close>

definition copy_week_try ::
  "env \<Rightarrow> user \<Rightarrow> int \<Rightarrow> int \<Rightarrow> int \<Rightarrow> world \<Rightarrow> (js_error + bulk_response) \<times> world" where
  "copy_week_try e u group_id from_week to_week w =
     (case pool_select_week e group_id from_week w of
        (Inl err, w1) \<Rightarrow> (Inl err, w1)
      | (Inr source, w1) \<Rightarrow>
          if length source = 0
          then (Inr \<lparr>bulk_status = 404, bulk_message = NothingToCopy\<rparr>, w1)
          else
     (case pool_delete_week e group_id to_week w1 of
        (Inl err, w2) \<Rightarrow> (Inl err, w2)
      | (Inr _, w2) \<Rightarrow>
     (case pool_copy_week e group_id to_week from_week w2 of
        (Inl err, w3) \<Rightarrow> (Inl err, w3)
      | (Inr _, w3) \<Rightarrow>
     (case logChange e
             [JNum (user_id u), JStr ''copy_week'', JStr ''lessons'', JNull,
              JObj [(''from_week'', JNum from_week), (''group_id'', JNum group_id)],
              JObj [(''to_week'', JNum to_week), (''group_id'', JNum group_id)],
              JStr ''week copied'']
             w3 of
        (Inl err, w4) \<Rightarrow> (Inl err, w4)
      | (Inr _, w4) \<Rightarrow>
          (Inr \<lparr>bulk_status = 200, bulk_message = WeekCopied from_week to_week\<rparr>, w4)))))"

text \<open>
  \<open>copyWeek\<close>, for the body fields \<open>group_id\<close>, \<open>from_week\<close> and \<open>to_week\<close> (\<open>None\<close>:
  \<open>undefined\<close>).
\<close>

definition copyWeek ::
  "env \<Rightarrow> user \<Rightarrow> int option \<Rightarrow> int option \<Rightarrow> int option \<Rightarrow> world \<Rightarrow> bulk_response \<times> world" where
  "copyWeek e u group_id from_week to_week w =
     (case (group_id, from_week, to_week) of
        (Some g, Some f, Some t) \<Rightarrow>
          (if g = 0 then (\<lparr>bulk_status = 400, bulk_message = BulkFieldsRequired\<rparr>, w)
           else (case copy_week_try e u g f t w of
                   (Inr resp, w1) \<Rightarrow> (resp, w1)
                 | (Inl err, w1) \<Rightarrow> (\<lparr>bulk_status = 500, bulk_message = InternalError\<rparr>, w1)))
      | _ \<Rightarrow> (\<lparr>bulk_status = 400, bulk_message = BulkFieldsRequired\<rparr>, w))"

definition clear_week_try ::
  "env \<Rightarrow> user \<Rightarrow> int \<Rightarrow> int \<Rightarrow> world \<Rightarrow> (js_error + bulk_response) \<times> world" where
  "clear_week_try e u group_id week w =
     (case pool_select_week e group_id week w of
        (Inl err, w1) \<Rightarrow> (Inl err, w1)
      | (Inr deletedLessons, w1) \<Rightarrow>
     (case pool_delete_week e group_id week w1 of
        (Inl err, w2) \<Rightarrow> (Inl err, w2)
      | (Inr rowCount, w2) \<Rightarrow>
          if rowCount > 0
          then (case logChange e
                       [JNum (user_id u), JStr ''clear_week'', JStr ''lessons'', JNull,
                        JNull, JNull, JStr ''week cleared'']
                       w2 of
                  (Inl err, w3) \<Rightarrow> (Inl err, w3)
                | (Inr _, w3) \<Rightarrow>
                    (Inr \<lparr>bulk_status = 200, bulk_message = Deleted rowCount\<rparr>, w3))
          else (Inr \<lparr>bulk_status = 200, bulk_message = Deleted rowCount\<rparr>, w2)))"

definition clearWeek ::
  "env \<Rightarrow> user \<Rightarrow> int option \<Rightarrow> int option \<Rightarrow> world \<Rightarrow> bulk_response \<times> world" where
  "clearWeek e u group_id week w =
     (case (group_id, week) of
        (Some g, Some wk) \<Rightarrow>
          (if g = 0 then (\<lparr>bulk_status = 400, bulk_message = BulkFieldsRequired\<rparr>, w)
           else (case clear_week_try e u g wk w of
                   (Inr resp, w1) \<Rightarrow> (resp, w1)
                 | (Inl err, w1) \<Rightarrow> (\<lparr>bulk_status = 500, bulk_message = InternalError\<rparr>, w1)))
      | _ \<Rightarrow> (\<lparr>bulk_status = 400, bulk_message = BulkFieldsRequired\<rparr>, w))"

definition replace_teacher_try ::
  "env \<Rightarrow> user \<Rightarrow> int \<Rightarrow> string \<Rightarrow> string \<Rightarrow> world \<Rightarrow> (js_error + bulk_response) \<times> world" where
  "replace_teacher_try e u group_id old_teacher new_teacher w =
     (case pool_select_teacher e group_id (trim old_teacher) w of
        (Inl err, w1) \<Rightarrow> (Inl err, w1)
      | (Inr affectedLessons, w1) \<Rightarrow>
     (case pool_update_teacher e (trim new_teacher) group_id (trim old_teacher) w1 of
        (Inl err, w2) \<Rightarrow> (Inl err, w2)
      | (Inr rowCount, w2) \<Rightarrow>
          if rowCount > 0
          then (case logChange e
                       [JNum (user_id u), JStr ''replace_teacher'', JStr ''lessons'', JNull,
                        JObj [(''teacher'', JStr old_teacher)],
                        JObj [(''teacher'', JStr new_teacher)],
                        JStr ''teacher replaced'']
                       w2 of
                  (Inl err, w3) \<Rightarrow> (Inl err, w3)
                | (Inr _, w3) \<Rightarrow>
                    (Inr \<lparr>bulk_status = 200, bulk_message = Replaced rowCount\<rparr>, w3))
          else (Inr \<lparr>bulk_status = 200, bulk_message = Replaced rowCount\<rparr>, w2)))"

definition replaceTeacher ::
  "env \<Rightarrow> user \<Rightarrow> int option \<Rightarrow> string option \<Rightarrow> string option \<Rightarrow> world
     \<Rightarrow> bulk_response \<times> world" where
  "replaceTeacher e u group_id old_teacher new_teacher w =
     (case (group_id, old_teacher, new_teacher) of
        (Some g, Some old, Some new) \<Rightarrow>
          (if g = 0 \<or> old = [] \<or> new = []
           then (\<lparr>bulk_status = 400, bulk_message = BulkFieldsRequired\<rparr>, w)
           else (case replace_teacher_try e u g old new w of
                   (Inr resp, w1) \<Rightarrow> (resp, w1)
                 | (Inl err, w1) \<Rightarrow> (\<lparr>bulk_status = 500, bulk_message = InternalError\<rparr>, w1)))
      | _ \<Rightarrow> (\<lparr>bulk_status = 400, bulk_message = BulkFieldsRequired\<rparr>, w))"

section \<open>Vocabulary of the statements\<close>

text \<open>
  The row that a well-formed lesson of the request becomes on the day \<open>d\<close> for the group
  \<open>g\<close>, without its id.
\<close>

definition stored_row :: "int \<Rightarrow> int \<Rightarrow> lesson_input \<Rightarrow> lesson_row" where
  "stored_row d g l =
     \<lparr> l_id = 0, l_group_id = g, l_lesson_date = d,
       l_start_time = str_of (start_time l), l_end_time = str_of (end_time l),
       l_subject = str_of (subject l),
       l_teacher_id = (if teacher_id l = Some 0 then None else teacher_id l),
       l_room = str_of (room l), l_type = str_of (type l) \<rparr>"

definition erase_id :: "lesson_row \<Rightarrow> lesson_row" where
  "erase_id r = r\<lparr>l_id := 0\<rparr>"

text \<open>The lessons stored for a date and a group, by their field values.\<close>

definition day_lessons :: "env \<Rightarrow> string \<Rightarrow> int \<Rightarrow> world \<Rightarrow> lesson_row list" where
  "day_lessons e date g w =
     (case pg_date e date of
        None \<Rightarrow> []
      | Some d \<Rightarrow> map erase_id (filter (on_day d g) (tbl_lessons w)))"

text \<open>The test of the loop of \<open>updateScheduleByDay\<close> on one lesson.\<close>

definition malformed :: "lesson_input \<Rightarrow> bool" where
  "malformed l =
     (falsy (start_time l) \<or> falsy (end_time l) \<or> falsy (subject l)
      \<or> falsy (room l) \<or> falsy (type l))"

text \<open>
  The failures of the transaction. A call that enters the transaction in the state \<open>w\<close>
  sends BEGIN, the SELECT, the DELETE, one INSERT for each lesson and COMMIT: with
  \<open>k = length (queries w)\<close>, these are the statements number \<open>k\<close>, \<open>k + 1\<close>, \<open>k + 2\<close>,
  \<open>k + 3 + j\<close> for the lesson \<open>j\<close>, and \<open>k + 3 + length ls\<close>, as long as none has failed.
  The step of the lesson \<open>j\<close> fails when the lesson is malformed, when its INSERT fails for
  a reason of the connection, or when the table refuses the row, whose id is the value
  \<open>i + j\<close> of the sequence.
\<close>

definition lesson_fails ::
  "env \<Rightarrow> int \<Rightarrow> int \<Rightarrow> nat \<Rightarrow> int \<Rightarrow> nat \<times> lesson_input \<Rightarrow> bool" where
  "lesson_fails e dn g k i jl =
     (case jl of
        (j, l) \<Rightarrow>
          malformed l \<or> fault e (k + j)
          \<or> \<not> insert_ok e ((stored_row dn g l)\<lparr>l_id := i + int j\<rparr>))"

text \<open>
  Some step fails: BEGIN, the SELECT or the DELETE fails for a reason of the connection,
  the database does not read the date (which the SELECT is the first to meet), the step
  of some lesson fails, or COMMIT fails.
\<close>

definition step_fails :: "env \<Rightarrow> string \<Rightarrow> int \<Rightarrow> lesson_input list \<Rightarrow> world \<Rightarrow> bool" where
  "step_fails e date g ls w =
     (fault e (length (queries w))
      \<or> fault e (length (queries w) + 1)
      \<or> fault e (length (queries w) + 2)
      \<or> (case pg_date e date of
            None \<Rightarrow> True
          | Some dn \<Rightarrow>
              list_ex (lesson_fails e dn g (length (queries w) + 3) (lessons_id_seq w))
                (enumerate 0 ls))
      \<or> fault e (length (queries w) + 3 + length ls))"

text \<open>The templates of a group and week, by their field values.\<close>

definition week_templates :: "int \<Rightarrow> int \<Rightarrow> world \<Rightarrow> template_row list" where
  "week_templates g wk w =
     map (\<lambda>r. r\<lparr>t_id := 0\<rparr>) (filter (in_week g wk) (tbl_templates w))"

subsection \<open>The setting of the examples\<close>

text \<open>
  The date-only ISO form \<open>YYYY-MM-DD\<close>, which \<open>new Date(string)\<close> reads as midnight
  UTC and PostgreSQL reads as that day. The examples take it as the only form read.
\<close>

definition DaysInMonth :: "int \<Rightarrow> int \<Rightarrow> int" where
  "DaysInMonth m lp =
     (if m = 1 then 28 + lp
      else if m = 3 \<or> m = 5 \<or> m = 8 \<or> m = 10 then 30
      else 31)"

definition digit_val :: "char \<Rightarrow> nat option" where
  "digit_val c =
     (let n = (of_char c :: nat) in if 48 \<le> n \<and> n \<le> 57 then Some (n - 48) else None)"

fun digits_val :: "nat \<Rightarrow> string \<Rightarrow> nat option" where
  "digits_val acc [] = Some acc"
| "digits_val acc (c # cs) =
     (case digit_val c of None \<Rightarrow> None | Some n \<Rightarrow> digits_val (acc * 10 + n) cs)"

definition iso_date :: "string \<Rightarrow> int option" where
  "iso_date s =
     (if length s = 10 \<and> s ! 4 = CHR ''-'' \<and> s ! 7 = CHR ''-''
      then (case (digits_val 0 (take 4 s), digits_val 0 (take 2 (drop 5 s)),
                  digits_val 0 (drop 8 s)) of
              (Some y, Some m, Some d) \<Rightarrow>
                (if 1 \<le> m \<and> m \<le> 12 \<and> 1 \<le> d
                    \<and> int d \<le> DaysInMonth (int m - 1) (InLeapYear (int y))
                 then Some (midnight_UTC (int y) (int m - 1) (int d)) else None)
            | _ \<Rightarrow> None)
      else None)"

text \<open>
  A server at UTC+3 whose database accepts every row and never fails, at noon UTC of
  2026-01-15; an administrator; a well-formed lesson and one without a room.
\<close>

definition ex_env :: env where
  "ex_env =
     \<lparr> tz_offset = 10800000, Date_parse = iso_date,
       pg_date = (\<lambda>s. map_option Day (iso_date s)),
       insert_ok = (\<lambda>r. True), audit_ok = (\<lambda>r. True), fault = (\<lambda>n. False) \<rparr>"

definition ex_now :: int where
  "ex_now = midnight_UTC 2026 0 15 + 43200000"

definition ex_admin :: user where
  "ex_admin = \<lparr> user_id = 7, role = ''admin'' \<rparr>"

definition ex_lesson :: lesson_input where
  "ex_lesson =
     \<lparr> start_time = Some ''09:00'', end_time = Some ''10:30'', subject = Some ''Algebra'',
       teacher_id = Some 3, room = Some ''101'', type = Some ''lecture'' \<rparr>"

definition ex_bad_lesson :: lesson_input where
  "ex_bad_lesson =
     \<lparr> start_time = Some ''11:00'', end_time = Some ''12:30'', subject = Some ''Physics'',
       teacher_id = None, room = None, type = Some ''practice'' \<rparr>"

text \<open>
  A database with one lesson stored for 2099-01-01 and group 1, and, for group 5, one
  template of the even weeks (1) and two of the odd weeks (2).
\<close>

definition ex_template :: "int \<Rightarrow> int \<Rightarrow> int \<Rightarrow> string \<Rightarrow> template_row" where
  "ex_template i wk dy sb =
     \<lparr> t_id = i, t_group_id = 5, t_day = dy, t_start_time = ''09:00'', t_end_time = ''10:30'',
       t_subject = sb, t_teacher_id = None, t_teacher = ''Ivanov'', t_room = ''101'',
       t_type = ''lecture'', t_week = wk \<rparr>"

definition ex_world :: world where
  "ex_world =
     \<lparr> tbl_lessons =
         [\<lparr> l_id = 1, l_group_id = 1, l_lesson_date = Day (midnight_UTC 2099 0 1),
            l_start_time = ''08:00'', l_end_time = ''09:30'', l_subject = ''History'',
            l_teacher_id = None, l_room = ''7'', l_type = ''lecture'' \<rparr>],
       tbl_templates =
         [ex_template 2 1 0 ''Algebra'', ex_template 3 2 1 ''Physics'',
          ex_template 4 2 3 ''Chemistry''],
       tbl_schedule_changes = [],
       lessons_id_seq = 10,
       tx_snapshot = None,
       queries = [] \<rparr>"

text \<open>The same server, where the fifth statement sent fails.\<close>

definition ex_env_fault :: env where
  "ex_env_fault = ex_env\<lparr>fault := (\<lambda>n. n = 4)\<rparr>"

text \<open>The same server, where the table refuses the lessons of the subject Physics.\<close>

definition ex_env_refuse :: env where
  "ex_env_refuse = ex_env\<lparr>insert_ok := (\<lambda>r. l_subject r \<noteq> ''Physics'')\<rparr>"

text \<open>The row of \<open>schedule_changes\<close> whose columns are all \<open>NULL\<close>.\<close>

definition null_change :: audit_row where
  "null_change =
     \<lparr> admin_id = JNull, action_type = JNull, target_type = JNull, target_id = JNull,
       old_value = JNull, new_value = JNull \<rparr>"

section \<open>Properties of the model\<close>

subsection \<open>The calendar\<close>

text \<open>\<open>YearFromDay\<close> is the year of the day: the estimate is never off by more than one.\<close>

lemma div_bounds:
  fixes x :: int
  assumes "0 < n"
  shows "n * (x div n) \<le> x" and "x - (n - 1) \<le> n * (x div n)"
proof -
  have e: "n * (x div n) + x mod n = x" by simp
  have m: "0 \<le> x mod n" "x mod n < n" using assms by simp_all
  show "n * (x div n) \<le> x" using e m by linarith
  show "x - (n - 1) \<le> n * (x div n)" using e m by linarith
qed

lemma DayFromYear_bounds:
  "400 * DayFromYear y \<le> 146097 * (y - 1970) + 589"
  "146097 * (y - 1970) - 506 \<le> 400 * DayFromYear y"
proof -
  define a where "a = (y - 1969) div 4"
  define b where "b = (y - 1901) div 100"
  define c where "c = (y - 1601) div 400"
  have a: "4 * a \<le> y - 1969" "y - 1969 - 3 \<le> 4 * a"
    using div_bounds [of 4 "y - 1969"] by (simp_all add: a_def)
  have b: "100 * b \<le> y - 1901" "y - 1901 - 99 \<le> 100 * b"
    using div_bounds [of 100 "y - 1901"] by (simp_all add: b_def)
  have c: "400 * c \<le> y - 1601" "y - 1601 - 399 \<le> 400 * c"
    using div_bounds [of 400 "y - 1601"] by (simp_all add: c_def)
  have d: "DayFromYear y = 365 * (y - 1970) + a - b + c"
    by (simp add: DayFromYear_def a_def b_def c_def)
  show "400 * DayFromYear y \<le> 146097 * (y - 1970) + 589"
    using a b c by (simp add: d algebra_simps)
  show "146097 * (y - 1970) - 506 \<le> 400 * DayFromYear y"
    using a b c by (simp add: d algebra_simps)
qed

lemma YearFromDay_bracket:
  "DayFromYear (YearFromDay d) \<le> d \<and> d < DayFromYear (YearFromDay d + 1)"
proof -
  define y0 where "y0 = 1970 + (d * 400) div 146097"
  have lo: "146097 * (y0 - 1970) \<le> 400 * d"
    using div_bounds [of 146097 "d * 400"] by (simp add: y0_def)
  have hi: "400 * d < 146097 * (y0 - 1970) + 146097"
    using div_bounds [of 146097 "d * 400"] by (simp add: y0_def)
  have "400 * DayFromYear (y0 - 1) \<le> 400 * d"
    using DayFromYear_bounds(1) [of "y0 - 1"] lo by (simp add: algebra_simps)
  then have below: "DayFromYear (y0 - 1) \<le> d" by simp
  have "400 * d < 400 * DayFromYear (y0 + 2)"
    using DayFromYear_bounds(2) [of "y0 + 2"] hi by (simp add: algebra_simps)
  then have above: "d < DayFromYear (y0 + 2)" by simp
  have two: "y0 + 1 + 1 = y0 + 2" and one: "y0 - 1 + 1 = y0" by simp_all
  show ?thesis
    unfolding YearFromDay_def Let_def y0_def [symmetric]
    using below above by (auto simp: two one)
qed

lemma Day_shift: "Day (t + k * msPerDay) = Day t + k"
  by (simp add: Day_def msPerDay_def)

lemma Day_local_shift: "Day (t + k * msPerDay + tz) = Day (t + tz) + k"
proof -
  have "t + k * msPerDay + tz = (t + tz) + k * msPerDay" by simp
  then show ?thesis
    using Day_shift [of "t + tz" k] by presburger
qed



lemma formatLocalDate_day:
  "Day (t + tz) = d \<Longrightarrow> formatLocalDate tz (Some t) = formatLocalDate 0 (Some (d * msPerDay))"
proof -
  have "Day (d * msPerDay + 0) = d"
    by (simp add: Day_def msPerDay_def)
  then show "Day (t + tz) = d \<Longrightarrow>
      formatLocalDate tz (Some t) = formatLocalDate 0 (Some (d * msPerDay))"
    by (simp add: formatLocalDate_def getFullYear_def getMonth_def getDate_def)
qed

lemma formatLocalDate_NaN: "formatLocalDate tz None = ''NaN-NaN-NaN''"
  by (simp add: formatLocalDate_def String_num_def padStart2_def)

lemma TimeClip_valid: "\<bar>t\<bar> \<le> maxTime \<Longrightarrow> TimeClip t = Some t"
  by (simp add: TimeClip_def)

lemma Day_bounds: "Day x = d \<Longrightarrow> d * msPerDay \<le> x \<and> x < d * msPerDay + msPerDay"
proof -
  have "x div msPerDay * msPerDay + x mod msPerDay = x"
    by simp
  moreover have "0 \<le> x mod msPerDay" "x mod msPerDay < msPerDay"
    by (simp_all add: msPerDay_def)
  ultimately show "Day x = d \<Longrightarrow> d * msPerDay \<le> x \<and> x < d * msPerDay + msPerDay"
    unfolding Day_def by auto
qed

subsection \<open>The week and the generated dates\<close>

text \<open>
  A valid \<open>weekStart\<close> is the time shifted by the weeks of the offset, moved back by at
  most six days to a Monday; a valid \<open>weekEnd\<close> lies six days after a valid \<open>weekStart\<close>.
\<close>

lemma weekStart_of_unfold:
  "weekStart_of tz now weekOffset =
     (case TimeClip (now + weekOffset * 7 * msPerDay) of
        None \<Rightarrow> None
      | Some t \<Rightarrow>
          TimeClip (t + (if getDay tz t = 0 then - 6 else 1 - getDay tz t) * msPerDay))"
  unfolding weekStart_of_def Let_def setDate_shift ..

lemma weekEnd_of_unfold:
  "weekEnd_of tz now weekOffset =
     (case weekStart_of tz now weekOffset of
        None \<Rightarrow> None
      | Some ws \<Rightarrow> TimeClip (ws + 6 * msPerDay))"
  unfolding weekEnd_of_def setDate_shift ..





text \<open>The dates pushed so far stay in front of what the rest of the loop pushes.\<close>

lemma generateDates_loop_unfold:
  "generateDates_loop tz j w (Some c) ds =
     (if c \<le> SEMESTER_END
      then generateDates_loop tz j w (setDate tz c (getDate tz c + 1))
             (ds @ (if getDay tz c = j \<and> week_match w (mod2_is_zero (getWeekNumber tz c))
                    then [c] else []))
      else ds)"
  by (subst generateDates_loop.simps) (simp add: Let_def)

lemma generateDates_loop_acc:
  "generateDates_loop tz j w c ds = ds @ generateDates_loop tz j w c []"
proof -
  have "\<forall>ds. generateDates_loop tz j w c ds = ds @ generateDates_loop tz j w c []"
  proof (rule generateDates_loop.induct
      [of "\<lambda>tz j w c (x :: int list).
             \<forall>ds. generateDates_loop tz j w c ds = ds @ generateDates_loop tz j w c []"])
    fix tz j w :: int and x :: "int list"
    show "\<forall>ds. generateDates_loop tz j w None ds = ds @ generateDates_loop tz j w None []"
      by (simp add: generateDates_loop.simps(1))
  next
    fix tz j w c :: int and x :: "int list"
    let ?n = "setDate tz c (getDate tz c + 1)"
    assume IH: "c \<le> SEMESTER_END \<Longrightarrow>
      \<forall>ds. generateDates_loop tz j w ?n ds = ds @ generateDates_loop tz j w ?n []"
    define y where "y =
      (if getDay tz c = j \<and> week_match w (mod2_is_zero (getWeekNumber tz c)) then [c] else [])"
    show "\<forall>ds. generateDates_loop tz j w (Some c) ds =
        ds @ generateDates_loop tz j w (Some c) []"
    proof (cases "c \<le> SEMESTER_END")
      case False
      then show ?thesis
        by (simp add: generateDates_loop_unfold)
    next
      case True
      have step: "generateDates_loop tz j w ?n ds = ds @ generateDates_loop tz j w ?n []" for ds
        using IH [OF True] by blast
      have unfold: "generateDates_loop tz j w (Some c) ds = generateDates_loop tz j w ?n (ds @ y)"
        for ds
        using True by (simp add: generateDates_loop_unfold y_def)
      show ?thesis
      proof
        fix ds
        have "generateDates_loop tz j w (Some c) ds = (ds @ y) @ generateDates_loop tz j w ?n []"
          by (simp only: unfold [of ds] step [of "ds @ y"])
        also have "\<dots> = ds @ generateDates_loop tz j w (Some c) []"
          using unfold [of "[]"] step [of y] by simp
        finally show "generateDates_loop tz j w (Some c) ds =
            ds @ generateDates_loop tz j w (Some c) []" .
      qed
    qed
  qed
  then show ?thesis by blast
qed

lemma generateDates_loop_step:
  "c \<le> SEMESTER_END \<Longrightarrow>
   generateDates_loop tz j w (Some c) [] =
     (if getDay tz c = j \<and> week_match w (mod2_is_zero (getWeekNumber tz c)) then [c] else []) @
     generateDates_loop tz j w (setDate tz c (getDate tz c + 1)) []"
  by (subst generateDates_loop_unfold, subst generateDates_loop_acc) simp

lemma generateDates_loop_done:
  "\<not> c \<le> SEMESTER_END \<Longrightarrow> generateDates_loop tz j w (Some c) [] = []"
  by (subst generateDates_loop_unfold) simp

text \<open>A week selector keeps, of the dates of the weekday, those of the weeks it matches.\<close>

lemma generateDates_loop_select:
  "t \<in> set (generateDates_loop tz j w c []) \<longleftrightarrow>
     t \<in> set (generateDates_loop tz j 0 c []) \<and>
     week_match w (mod2_is_zero (getWeekNumber tz t))"
proof (rule generateDates_loop.induct
    [of "\<lambda>tz j w c (x :: int list).
           t \<in> set (generateDates_loop tz j w c []) \<longleftrightarrow>
           t \<in> set (generateDates_loop tz j 0 c []) \<and>
           week_match w (mod2_is_zero (getWeekNumber tz t))"])
  fix tz j w :: int and x :: "int list"
  show "t \<in> set (generateDates_loop tz j w None []) \<longleftrightarrow>
      t \<in> set (generateDates_loop tz j 0 None []) \<and>
      week_match w (mod2_is_zero (getWeekNumber tz t))"
    by (simp add: generateDates_loop.simps(1))
next
  fix tz j w c :: int and x :: "int list"
  let ?n = "setDate tz c (getDate tz c + 1)"
  assume IH: "c \<le> SEMESTER_END \<Longrightarrow>
    t \<in> set (generateDates_loop tz j w ?n []) \<longleftrightarrow>
    t \<in> set (generateDates_loop tz j 0 ?n []) \<and>
    week_match w (mod2_is_zero (getWeekNumber tz t))"
  have m0: "week_match 0 b" for b
    by (simp add: week_match_def)
  show "t \<in> set (generateDates_loop tz j w (Some c) []) \<longleftrightarrow>
      t \<in> set (generateDates_loop tz j 0 (Some c) []) \<and>
      week_match w (mod2_is_zero (getWeekNumber tz t))"
  proof (cases "c \<le> SEMESTER_END")
    case False
    then show ?thesis
      by (simp add: generateDates_loop_done)
  next
    case True
    show ?thesis
      using IH [OF True] by (auto simp: generateDates_loop_step [OF True] m0)
  qed
qed

lemma generateDates_monday_even:
  "map (formatLocalDate 0) (map Some (generateDates 0 0 1)) =
    [''2023-09-04'', ''2023-09-18'', ''2023-10-02'', ''2023-10-16'',
  ''2023-10-30'', ''2023-11-13'', ''2023-11-27'', ''2023-12-11'',
  ''2023-12-25'']"
  by code_simp

subsection \<open>The transaction of \<open>updateScheduleByDay\<close>\<close>

lemma logChange_keeps:
  "logChange e args w = (r, w1) \<Longrightarrow>
     tbl_lessons w1 = tbl_lessons w \<and> tx_snapshot w1 = tx_snapshot w
     \<and> tbl_templates w1 = tbl_templates w \<and> lessons_id_seq w1 = lessons_id_seq w"
  by (auto simp: logChange_def Let_def sent_def split: if_splits)

lemma logChange_object: "fst (logChange e (JObj kvs # rest) w) = Inr ()"
  by (simp add: logChange_def Let_def)

lemma client_insert_lesson_ok:
  "client_insert_lesson e g date st et sb tid rm ty w = (Inr x, w1) \<Longrightarrow>
     \<exists>d i. pg_date e date = Some d \<and> tx_snapshot w1 = tx_snapshot w \<and>
       tbl_lessons w1 = tbl_lessons w @
         [\<lparr> l_id = i, l_group_id = g, l_lesson_date = d, l_start_time = st, l_end_time = et,
            l_subject = sb, l_teacher_id = tid, l_room = rm, l_type = ty \<rparr>]"
  by (auto simp: client_insert_lesson_def Let_def sent_def split: if_splits option.splits)

lemma client_insert_lesson_snapshot:
  "client_insert_lesson e g date st et sb tid rm ty w = (r, w1) \<Longrightarrow>
     tx_snapshot w1 = tx_snapshot w"
  by (auto simp: client_insert_lesson_def Let_def sent_def split: if_splits option.splits)

lemma insert_lessons_snapshot:
  "insert_lessons e date g ls w = (r, w1) \<Longrightarrow> tx_snapshot w1 = tx_snapshot w"
proof (induction ls arbitrary: w)
  case Nil
  then show ?case by simp
next
  case (Cons l ls)
  show ?case
  proof (cases "malformed l")
    case True
    with Cons.prems show ?thesis by (simp add: malformed_def)
  next
    case False
    obtain r2 w2 where ins: "client_insert_lesson e g date
        (str_of (start_time l)) (str_of (end_time l)) (str_of (subject l))
        (if teacher_id l = Some 0 then None else teacher_id l)
        (str_of (room l)) (str_of (type l)) w = (r2, w2)"
      by (cases "client_insert_lesson e g date
        (str_of (start_time l)) (str_of (end_time l)) (str_of (subject l))
        (if teacher_id l = Some 0 then None else teacher_id l)
        (str_of (room l)) (str_of (type l)) w") 
    have s2: "tx_snapshot w2 = tx_snapshot w"
      using client_insert_lesson_snapshot [OF ins] .
    show ?thesis
    proof (cases r2)
      case (Inl err)
      with Cons.prems False ins s2 show ?thesis by (simp add: malformed_def)
    next
      case (Inr x)
      with Cons.prems False ins have "insert_lessons e date g ls w2 = (r, w1)"
        by (simp add: malformed_def)
      then show ?thesis using Cons.IH s2 by simp
    qed
  qed
qed

lemma insert_lessons_ok:
  "pg_date e date = Some d \<Longrightarrow> insert_lessons e date g ls w = (Inr x, w1) \<Longrightarrow>
     \<exists>rows. tbl_lessons w1 = tbl_lessons w @ rows \<and>
        map erase_id rows = map (stored_row d g) ls"
proof (induction ls arbitrary: w)
  case Nil
  then show ?case by simp
next
  case (Cons l ls)
  let ?ins = "client_insert_lesson e g date
        (str_of (start_time l)) (str_of (end_time l)) (str_of (subject l))
        (if teacher_id l = Some 0 then None else teacher_id l)
        (str_of (room l)) (str_of (type l)) w"
  have wf: "\<not> malformed l"
    using Cons.prems(2) by (auto simp: malformed_def)
  obtain r2 w2 where ins: "?ins = (r2, w2)"
    by (cases ?ins)
  have rest: "r2 = Inr () \<and> insert_lessons e date g ls w2 = (Inr x, w1)"
    using Cons.prems(2) wf ins by (cases r2) (simp_all add: malformed_def)
  then have ins': "?ins = (Inr (), w2)"
    using ins by simp
  obtain i where row: "tbl_lessons w2 = tbl_lessons w @
      [\<lparr> l_id = i, l_group_id = g, l_lesson_date = d,
         l_start_time = str_of (start_time l), l_end_time = str_of (end_time l),
         l_subject = str_of (subject l),
         l_teacher_id = (if teacher_id l = Some 0 then None else teacher_id l),
         l_room = str_of (room l), l_type = str_of (type l) \<rparr>]"
    using client_insert_lesson_ok [OF ins'] Cons.prems(1) by auto
  obtain rows where rows: "tbl_lessons w1 = tbl_lessons w2 @ rows"
      "map erase_id rows = map (stored_row d g) ls"
    using Cons.IH [OF Cons.prems(1)] rest by blast
  define r where "r = \<lparr> l_id = i, l_group_id = g, l_lesson_date = d,
         l_start_time = str_of (start_time l), l_end_time = str_of (end_time l),
         l_subject = str_of (subject l),
         l_teacher_id = (if teacher_id l = Some 0 then None else teacher_id l),
         l_room = str_of (room l), l_type = str_of (type l) \<rparr>"
  have head: "erase_id r = stored_row d g l"
    by (simp add: r_def erase_id_def stored_row_def)
  have "tbl_lessons w1 = tbl_lessons w @ (r # rows)"
    using rows(1) row by (simp add: r_def)
  moreover have "map erase_id (r # rows) = map (stored_row d g) (l # ls)"
    using rows(2) head by simp
  ultimately show ?case by blast
qed

lemma insert_lessons_malformed:
  "\<exists>l \<in> set ls. malformed l \<Longrightarrow> \<exists>err w1. insert_lessons e date g ls w = (Inl err, w1)"
proof (induction ls arbitrary: w)
  case Nil
  then show ?case by simp
next
  case (Cons l ls)
  show ?case
  proof (cases "malformed l")
    case True
    then show ?thesis by (simp add: malformed_def)
  next
    case False
    then have "\<exists>l \<in> set ls. malformed l"
      using Cons.prems by simp
    then have IH: "\<exists>err w1. insert_lessons e date g ls w2 = (Inl err, w1)" for w2
      using Cons.IH by blast
    show ?thesis
      using False IH by (auto simp: malformed_def split: prod.splits sum.splits)
  qed
qed

lemma update_day_try_failed:
  assumes "tx_snapshot w = None"
    and "update_day_try e u date g ls w = (Inl err, w1)"
  shows "tbl_lessons (client_rollback w1) = tbl_lessons w
    \<and> tx_snapshot (client_rollback w1) = None"
proof -
  obtain r1 a where b: "client_begin e w = (r1, a)" by (cases "client_begin e w")
  obtain r2 b where s: "client_select_day e date g a = (r2, b)"
    by (cases "client_select_day e date g a")
  obtain r3 c where d: "client_delete_day e date g b = (r3, c)"
    by (cases "client_delete_day e date g b")
  obtain r4 d where i: "insert_lessons e date g ls c = (r4, d)"
    by (cases "insert_lessons e date g ls c")
  obtain r5 f where k: "client_commit e d = (r5, f)"
    by (cases "client_commit e d")
  have snap_a: "r1 = Inr () \<Longrightarrow> tx_snapshot a = Some (tbl_lessons w)"
    and fail_a: "r1 \<noteq> Inr () \<Longrightarrow> tx_snapshot a = None \<and> tbl_lessons a = tbl_lessons w"
    using b assms(1) by (auto simp: client_begin_def sent_def split: if_splits)
  have snap_b: "tx_snapshot b = tx_snapshot a"
    using s by (auto simp: client_select_day_def sent_def split: if_splits option.splits)
  have snap_c: "tx_snapshot c = tx_snapshot b"
    using d by (auto simp: client_delete_day_def sent_def split: if_splits option.splits)
  have snap_d: "tx_snapshot d = tx_snapshot c"
    using insert_lessons_snapshot [OF i] .
  have snap_f: "isl r5 \<Longrightarrow> tx_snapshot f = tx_snapshot d"
    using k by (auto simp: client_commit_def sent_def split: if_splits)
  have restore: "tx_snapshot x = Some (tbl_lessons w) \<Longrightarrow>
      tbl_lessons (client_rollback x) = tbl_lessons w \<and> tx_snapshot (client_rollback x) = None"
    for x
    by (simp add: client_rollback_def sent_def)
  have keep: "tx_snapshot x = None \<Longrightarrow> tbl_lessons x = tbl_lessons w \<Longrightarrow>
      tbl_lessons (client_rollback x) = tbl_lessons w \<and> tx_snapshot (client_rollback x) = None"
    for x
    by (simp add: client_rollback_def sent_def)
  show ?thesis
  proof (cases r1)
    case (Inl e1)
    then have "w1 = a" using assms(2) b by (simp add: update_day_try_def)
    then show ?thesis using keep fail_a Inl by simp
  next
    case r1: (Inr u1)
    then have sa: "tx_snapshot a = Some (tbl_lessons w)" using snap_a by simp
    show ?thesis
    proof (cases r2)
      case (Inl e2)
      then have "w1 = b" using assms(2) b s r1 by (simp add: update_day_try_def)
      then show ?thesis using restore sa snap_b by simp
    next
      case r2: (Inr old)
      show ?thesis
      proof (cases r3)
        case (Inl e3)
        then have "w1 = c" using assms(2) b s d r1 r2 by (simp add: update_day_try_def)
        then show ?thesis using restore sa snap_b snap_c by simp
      next
        case r3: (Inr u3)
        show ?thesis
        proof (cases r4)
          case (Inl e4)
          then have "w1 = d" using assms(2) b s d i r1 r2 r3 by (simp add: update_day_try_def)
          then show ?thesis using restore sa snap_b snap_c snap_d by simp
        next
          case r4: (Inr u4)
          show ?thesis
          proof (cases r5)
            case (Inl e5)
            then have "w1 = f" using assms(2) b s d i k r1 r2 r3 r4
              by (simp add: update_day_try_def)
            then show ?thesis using restore sa snap_b snap_c snap_d snap_f Inl by simp
          next
            case r5: (Inr u5)
            then have False
              using arg_cong [OF assms(2), of fst] b s d i k r1 r2 r3 r4
              by (simp add: update_day_try_def logChange_object)
            then show ?thesis ..
          qed
        qed
      qed
    qed
  qed
qed


lemma update_day_try_ok:
  assumes "update_day_try e u date g ls w = (Inr x, w1)"
  shows "\<exists>d rows. pg_date e date = Some d \<and>
      tbl_lessons w1 = filter (\<lambda>r. \<not> on_day d g r) (tbl_lessons w) @ rows \<and>
      map erase_id rows = map (stored_row d g) ls \<and> tx_snapshot w1 = None"
proof -
  obtain r1 a where b: "client_begin e w = (r1, a)" by (cases "client_begin e w")
  obtain r2 b where s: "client_select_day e date g a = (r2, b)"
    by (cases "client_select_day e date g a")
  obtain r3 c where d: "client_delete_day e date g b = (r3, c)"
    by (cases "client_delete_day e date g b")
  obtain r4 d where i: "insert_lessons e date g ls c = (r4, d)"
    by (cases "insert_lessons e date g ls c")
  obtain r5 f where k: "client_commit e d = (r5, f)"
    by (cases "client_commit e d")
  have r1: "r1 = Inr ()"
    using assms b by (cases r1) (simp_all add: update_day_try_def)
  obtain old where r2: "r2 = Inr old"
    using assms b s r1 by (cases r2) (simp_all add: update_day_try_def)
  have r3: "r3 = Inr ()"
    using assms b s d r1 r2 by (cases r3) (simp_all add: update_day_try_def)
  have r4: "r4 = Inr ()"
    using assms b s d i r1 r2 r3 by (cases r4) (simp_all add: update_day_try_def)
  have r5: "r5 = Inr ()"
    using assms b s d i k r1 r2 r3 r4 by (cases r5) (simp_all add: update_day_try_def)
  have ta: "tbl_lessons a = tbl_lessons w"
    using b r1 by (auto simp: client_begin_def sent_def split: if_splits)
  have tb: "tbl_lessons b = tbl_lessons a"
    using s by (auto simp: client_select_day_def sent_def split: if_splits option.splits)
  obtain dn where dn: "pg_date e date = Some dn"
    and tc: "tbl_lessons c = filter (\<lambda>r. \<not> on_day dn g r) (tbl_lessons b)"
    using d r3 by (auto simp: client_delete_day_def sent_def split: if_splits option.splits)
  obtain rows where rows: "tbl_lessons d = tbl_lessons c @ rows"
      "map erase_id rows = map (stored_row dn g) ls"
    using insert_lessons_ok [OF dn] i r4 by blast
  have tf: "tbl_lessons f = tbl_lessons d" and sf: "tx_snapshot f = None"
    using k r5 by (auto simp: client_commit_def sent_def split: if_splits)
  have "\<exists>r. logChange e
            [JObj [(''adminId'', JNum (user_id u)),
                   (''actionType'', JStr ''update_schedule_day''),
                   (''targetType'', JStr ''schedule_day''),
                   (''targetId'', JNull),
                   (''oldValue'', JObj [(''date'', JStr date),
                                        (''lessons'', JArr (map row_js old))]),
                   (''newValue'', JObj [(''date'', JStr date),
                                        (''groupId'', JNum g),
                                        (''lessons'', JArr (map lesson_js ls))])]]
            f = (r, w1)"
    using assms b s d i k r1 r2 r3 r4 r5 by (simp add: update_day_try_def)
  then have "tbl_lessons w1 = tbl_lessons f \<and> tx_snapshot w1 = tx_snapshot f"
    using logChange_keeps by blast
  then show ?thesis
    using dn ta tb tc rows tf sf by auto
qed

lemma stored_rows_on_day:
  "map erase_id rows = map (stored_row d g) ls \<Longrightarrow> filter (on_day d g) rows = rows"
proof (induction rows arbitrary: ls)
  case Nil
  then show ?case by simp
next
  case (Cons r rows)
  then obtain l ls' where ls: "ls = l # ls'" "erase_id r = stored_row d g l"
      "map erase_id rows = map (stored_row d g) ls'"
    by (cases ls) auto
  have "l_lesson_date (erase_id r) = d \<and> l_group_id (erase_id r) = g"
    by (simp add: ls(2) stored_row_def)
  then have "on_day d g r"
    by (simp add: on_day_def erase_id_def)
  then show ?case
    using Cons.IH [OF ls(3)] by simp
qed

lemma update_day_try_day_lessons:
  assumes "update_day_try e u date g ls w = (Inr x, w1)"
  shows "\<exists>d. pg_date e date = Some d \<and> day_lessons e date g w1 = map (stored_row d g) ls"
proof -
  obtain d rows where d: "pg_date e date = Some d"
    and t: "tbl_lessons w1 = filter (\<lambda>r. \<not> on_day d g r) (tbl_lessons w) @ rows"
    and rows: "map erase_id rows = map (stored_row d g) ls"
    using update_day_try_ok [OF assms] by blast
  have "filter (on_day d g) (tbl_lessons w1) = rows"
    using stored_rows_on_day [OF rows] by (simp add: t)
  then show ?thesis
    using d rows by (simp add: day_lessons_def)
qed

lemma sent_queries: "queries (sent q w) = queries w @ [q]"
  by (simp add: sent_def)

lemma client_insert_lesson_queries:
  "client_insert_lesson e g date st et sb tid rm ty w = (r, w1) \<Longrightarrow>
     queries w1 = queries w @ [QInsertLesson]"
  by (auto simp: client_insert_lesson_def Let_def sent_def split: if_splits option.splits)

lemma insert_lessons_queries:
  "insert_lessons e date g ls w = (r, w1) \<Longrightarrow> \<exists>qs. queries w1 = queries w @ qs"
proof (induction ls arbitrary: w)
  case Nil
  then show ?case by simp
next
  case (Cons l ls)
  let ?ins = "client_insert_lesson e g date
        (str_of (start_time l)) (str_of (end_time l)) (str_of (subject l))
        (if teacher_id l = Some 0 then None else teacher_id l)
        (str_of (room l)) (str_of (type l)) w"
  show ?case
  proof (cases "malformed l")
    case True
    with Cons.prems show ?thesis by (simp add: malformed_def)
  next
    case False
    obtain r2 w2 where ins: "?ins = (r2, w2)" by (cases ?ins)
    have q2: "queries w2 = queries w @ [QInsertLesson]"
      using client_insert_lesson_queries [OF ins] .
    show ?thesis
    proof (cases r2)
      case (Inl err)
      with Cons.prems False ins q2 show ?thesis by (simp add: malformed_def)
    next
      case (Inr x)
      with Cons.prems False ins have "insert_lessons e date g ls w2 = (r, w1)"
        by (simp add: malformed_def)
      then obtain qs where "queries w1 = queries w2 @ qs"
        using Cons.IH by blast
      then show ?thesis using q2 by simp
    qed
  qed
qed

lemma logChange_queries: "logChange e args w = (r, w1) \<Longrightarrow> \<exists>qs. queries w1 = queries w @ qs"
  by (auto simp: logChange_def Let_def sent_def split: if_splits)

lemma update_day_try_begins:
  assumes "update_day_try e u date g ls w = (r, w1)"
  shows "\<exists>qs. queries w1 = queries w @ QBegin # qs"
proof -
  obtain r1 a where b: "client_begin e w = (r1, a)" by (cases "client_begin e w")
  obtain r2 b where s: "client_select_day e date g a = (r2, b)"
    by (cases "client_select_day e date g a")
  obtain r3 c where d: "client_delete_day e date g b = (r3, c)"
    by (cases "client_delete_day e date g b")
  obtain r4 d where i: "insert_lessons e date g ls c = (r4, d)"
    by (cases "insert_lessons e date g ls c")
  obtain r5 f where k: "client_commit e d = (r5, f)"
    by (cases "client_commit e d")
  have qa: "queries a = queries w @ [QBegin]"
    using b by (auto simp: client_begin_def sent_def split: if_splits)
  have qb: "queries b = queries a @ [QSelectDay]"
    using s by (auto simp: client_select_day_def sent_def split: if_splits option.splits)
  have qc: "queries c = queries b @ [QDeleteDay]"
    using d by (auto simp: client_delete_day_def sent_def split: if_splits option.splits)
  obtain qs4 where qd: "queries d = queries c @ qs4"
    using insert_lessons_queries [OF i] by blast
  have qf: "queries f = queries d @ [QCommit]"
    using k by (auto simp: client_commit_def sent_def split: if_splits)
  have "w1 = a \<or> w1 = b \<or> w1 = c \<or> w1 = d \<or> w1 = f \<or> (\<exists>args r. logChange e args f = (r, w1))"
    using assms b s d i k
    by (auto simp: update_day_try_def split: sum.splits)
  then show ?thesis
    using qa qb qc qd qf logChange_queries by (elim disjE exE) fastforce+
qed

lemma past_date_guard:
  "date_lt (map_option (setHours0 tz) p) (Some (setHours0 tz now)) \<longleftrightarrow>
     (\<exists>t. p = Some t \<and> Day (t + tz) < Day (now + tz))"
  by (cases p) (simp_all add: date_lt_def setHours0_def MakeDate_def msPerDay_def Let_def)

lemma updateScheduleByDay_entered:
  assumes "role u = ''admin''" "d \<noteq> []" "g \<noteq> 0"
    and "\<not> (\<exists>t. Date_parse e d = Some t \<and> Day (t + tz_offset e) < Day (now + tz_offset e))"
  shows "updateScheduleByDay e now u (Some d) (Some g) (Some ls) w =
     (case update_day_try e u d g ls w of
        (Inr x, w1) \<Rightarrow> (\<lparr>status = 200, message = Saved\<rparr>, w1)
      | (Inl err, w1) \<Rightarrow> (\<lparr>status = 500, message = ServerError\<rparr>, client_rollback w1))"
proof -
  have "\<not> date_lt (map_option (setHours0 (tz_offset e)) (Date_parse e d))
      (Some (setHours0 (tz_offset e) now))"
    using assms(4) past_date_guard [of "tz_offset e" "Date_parse e d" now] by blast
  then show ?thesis
    using assms(1-3) by (simp add: updateScheduleByDay_def Let_def)
qed

lemma updateScheduleByDay_cases:
  "updateScheduleByDay e now u date groupId lessons w = (r, w1) \<Longrightarrow>
     (w1 = w \<and> (status r = 400 \<or> status r = 403))
     \<or> (\<exists>d g ls x. update_day_try e u d g ls w = (Inr x, w1) \<and> r = \<lparr>status = 200, message = Saved\<rparr>
           \<and> date = Some d \<and> groupId = Some g \<and> lessons = Some ls)
     \<or> (\<exists>d g ls err w0. update_day_try e u d g ls w = (Inl err, w0) \<and> w1 = client_rollback w0
           \<and> r = \<lparr>status = 500, message = ServerError\<rparr>
           \<and> date = Some d \<and> groupId = Some g \<and> lessons = Some ls)"
  by (auto simp: updateScheduleByDay_def Let_def split: if_splits option.splits prod.splits sum.splits)

lemma client_rollback_queries: "queries (client_rollback w) = queries w @ [QRollback]"
  by (simp add: client_rollback_def sent_def split: option.splits)

text \<open>The try block throws exactly when some step fails.\<close>

lemma client_insert_lesson_fails:
  assumes "pg_date e date = Some dn"
  shows "isl (fst (client_insert_lesson e g date (str_of (start_time l)) (str_of (end_time l))
        (str_of (subject l)) (if teacher_id l = Some 0 then None else teacher_id l)
        (str_of (room l)) (str_of (type l)) w)) \<longleftrightarrow>
      fault e (length (queries w))
      \<or> \<not> insert_ok e ((stored_row dn g l)\<lparr>l_id := lessons_id_seq w\<rparr>)"
  using assms by (simp add: client_insert_lesson_def Let_def faulted_def stored_row_def)

lemma client_insert_lesson_counts:
  assumes "client_insert_lesson e g date st et sb tid rm ty w = (Inr x, w1)"
  shows "length (queries w1) = length (queries w) + 1 \<and> lessons_id_seq w1 = lessons_id_seq w + 1"
  using assms
  by (auto simp: client_insert_lesson_def Let_def sent_def split: if_splits option.splits)

lemma insert_lessons_fails:
  assumes "pg_date e date = Some dn"
  shows "length (queries w) = k + n \<Longrightarrow> lessons_id_seq w = i + int n \<Longrightarrow>
    (isl (fst (insert_lessons e date g ls w)) \<longleftrightarrow>
       list_ex (lesson_fails e dn g k i) (enumerate n ls))
    \<and> (\<not> isl (fst (insert_lessons e date g ls w)) \<longrightarrow>
         length (queries (snd (insert_lessons e date g ls w))) = k + n + length ls)"
proof (induction ls arbitrary: w n)
  case Nil
  then show ?case by simp
next
  case (Cons l ls)
  let ?ins = "client_insert_lesson e g date
        (str_of (start_time l)) (str_of (end_time l)) (str_of (subject l))
        (if teacher_id l = Some 0 then None else teacher_id l)
        (str_of (room l)) (str_of (type l)) w"
  have here: "lesson_fails e dn g k i (n, l) \<longleftrightarrow> malformed l \<or> isl (fst ?ins)"
    using client_insert_lesson_fails [OF assms] Cons.prems
    by (simp add: lesson_fails_def)
  show ?case
  proof (cases "malformed l")
    case True
    then have "insert_lessons e date g (l # ls) w = (Inl (Error ''bad lesson data''), w)"
      by (simp add: malformed_def)
    then show ?thesis
      using True here by simp
  next
    case False
    obtain r2 w2 where ins: "?ins = (r2, w2)"
      by (cases ?ins)
    show ?thesis
    proof (cases r2)
      case (Inl err)
      then have "insert_lessons e date g (l # ls) w = (Inl err, w2)"
        using False ins by (simp add: malformed_def)
      then show ?thesis
        using here ins Inl by simp
    next
      case (Inr x)
      have step: "insert_lessons e date g (l # ls) w = insert_lessons e date g ls w2"
        using False ins Inr by (simp add: malformed_def)
      have c: "length (queries w2) = k + Suc n" "lessons_id_seq w2 = i + int (Suc n)"
        using client_insert_lesson_counts [of e g date _ _ _ _ _ _ w x w2] ins Inr Cons.prems
        by simp_all
      have nothere: "\<not> lesson_fails e dn g k i (n, l)"
        using here False ins Inr by simp
      show ?thesis
        unfolding step using Cons.IH [OF c] nothere by simp
    qed
  qed
qed

lemma update_day_try_fails:
  "isl (fst (update_day_try e u date g ls w)) \<longleftrightarrow> step_fails e date g ls w"
proof -
  define k where "k = length (queries w)"
  obtain r1 a where b: "client_begin e w = (r1, a)" by (cases "client_begin e w")
  obtain r2 b where s: "client_select_day e date g a = (r2, b)"
    by (cases "client_select_day e date g a")
  obtain r3 c where d: "client_delete_day e date g b = (r3, c)"
    by (cases "client_delete_day e date g b")
  obtain r4 d where i: "insert_lessons e date g ls c = (r4, d)"
    by (cases "insert_lessons e date g ls c")
  obtain r5 f where c: "client_commit e d = (r5, f)"
    by (cases "client_commit e d")
  have f1: "isl r1 \<longleftrightarrow> fault e k"
    and a: "length (queries a) = k + 1" "lessons_id_seq a = lessons_id_seq w"
    using b by (auto simp: client_begin_def faulted_def sent_def k_def split: if_splits)
  have f2: "isl r2 \<longleftrightarrow> fault e (k + 1) \<or> pg_date e date = None"
    and b': "length (queries b) = k + 2" "lessons_id_seq b = lessons_id_seq w"
    using s a
    by (auto simp: client_select_day_def faulted_def sent_def split: if_splits option.splits)
  have f3: "isl r3 \<longleftrightarrow> fault e (k + 2) \<or> pg_date e date = None"
    and c': "length (queries c) = k + 3 + 0" "lessons_id_seq c = lessons_id_seq w + int 0"
    using d b'
    by (auto simp: client_delete_day_def faulted_def sent_def split: if_splits option.splits)
  have f4: "pg_date e date = Some dn \<Longrightarrow>
      (isl r4 \<longleftrightarrow> list_ex (lesson_fails e dn g (k + 3) (lessons_id_seq w)) (enumerate 0 ls))
      \<and> (\<not> isl r4 \<longrightarrow> length (queries d) = k + 3 + length ls)" for dn
    using insert_lessons_fails [OF _ c', of e date dn g ls] i by simp
  have f5: "length (queries d) = m \<Longrightarrow> isl r5 \<longleftrightarrow> fault e m" for m
    using c by (auto simp: client_commit_def faulted_def sent_def split: if_splits)
  have res: "isl (fst (update_day_try e u date g ls w)) \<longleftrightarrow>
      isl r1 \<or> isl r2 \<or> isl r3 \<or> isl r4 \<or> isl r5"
    using b s d i c
    by (cases r1; cases r2; cases r3; cases r4; cases r5)
       (simp_all add: update_day_try_def logChange_object)
  show ?thesis
  proof (cases "pg_date e date")
    case None
    then show ?thesis
      using res f2 by (simp add: step_fails_def)
  next
    case (Some dn)
    show ?thesis
      using res f1 f2 f3 f4 [OF Some] f5 Some
      by (auto simp: step_fails_def k_def [symmetric])
  qed
qed


lemma updateScheduleByDay_no_failing_step:
  assumes "role u = ''admin''" "d \<noteq> []" "g \<noteq> 0"
    and "\<not> (\<exists>t. Date_parse e d = Some t \<and> Day (t + tz_offset e) < Day (now + tz_offset e))"
    and "\<not> step_fails e d g ls w"
  shows "fst (updateScheduleByDay e now u (Some d) (Some g) (Some ls) w) =
      \<lparr>status = 200, message = Saved\<rparr>"
proof -
  obtain r0 w0 where t: "update_day_try e u d g ls w = (r0, w0)"
    by (cases "update_day_try e u d g ls w")
  have "\<not> isl r0"
    using update_day_try_fails [of e u d g ls w] assms(5) t by simp
  then obtain x where "r0 = Inr x"
    by (cases r0) simp_all
  then show ?thesis
    using updateScheduleByDay_entered [OF assms(1-4)] t by simp
qed

subsection \<open>The bulk operations\<close>

lemma logChange_positional:
  "logChange e (JNum n # rest) w = (r, w1) \<Longrightarrow>
     tbl_templates w1 = tbl_templates w \<and>
     (tbl_schedule_changes w1 = tbl_schedule_changes w
      \<or> tbl_schedule_changes w1 = tbl_schedule_changes w @ [null_change])"
  by (auto simp: logChange_def Let_def get_prop_def default_null_def pg_param_def truthy_def
        null_change_def sent_def split: if_splits)

lemma pool_select_week_keeps:
  "pool_select_week e g wk w = (r, w1) \<Longrightarrow>
     tbl_schedule_changes w1 = tbl_schedule_changes w \<and> tbl_templates w1 = tbl_templates w
     \<and> (\<forall>rows. r = Inr rows \<longrightarrow> rows = filter (in_week g wk) (tbl_templates w))"
  by (auto simp: pool_select_week_def sent_def split: if_splits)

lemma pool_delete_week_keeps:
  "pool_delete_week e g wk w = (r, w1) \<Longrightarrow>
     tbl_schedule_changes w1 = tbl_schedule_changes w
     \<and> (\<forall>n. r = Inr n \<longrightarrow>
           tbl_templates w1 = filter (\<lambda>r. \<not> in_week g wk r) (tbl_templates w))"
  by (auto simp: pool_delete_week_def sent_def split: if_splits)

lemma pool_copy_week_keeps:
  "pool_copy_week e g t f w = (r, w1) \<Longrightarrow>
     tbl_schedule_changes w1 = tbl_schedule_changes w
     \<and> (filter (in_week g f) (tbl_templates w) = [] \<longrightarrow> tbl_templates w1 = tbl_templates w)"
  by (auto simp: pool_copy_week_def Let_def sent_def split: if_splits)

lemma pool_select_teacher_keeps:
  "pool_select_teacher e g name w = (r, w1) \<Longrightarrow>
     tbl_schedule_changes w1 = tbl_schedule_changes w"
  by (auto simp: pool_select_teacher_def sent_def split: if_splits)

lemma pool_update_teacher_keeps:
  "pool_update_teacher e new g old w = (r, w1) \<Longrightarrow>
     tbl_schedule_changes w1 = tbl_schedule_changes w"
  by (auto simp: pool_update_teacher_def sent_def split: if_splits)

lemma copy_week_try_audit:
  assumes "copy_week_try e u g f t w = (r, w1)"
  shows "tbl_schedule_changes w1 = tbl_schedule_changes w
      \<or> tbl_schedule_changes w1 = tbl_schedule_changes w @ [null_change]"
proof -
  obtain r1 a where s: "pool_select_week e g f w = (r1, a)"
    by (cases "pool_select_week e g f w")
  obtain r2 b where d: "pool_delete_week e g t a = (r2, b)"
    by (cases "pool_delete_week e g t a")
  obtain r3 c where k: "pool_copy_week e g t f b = (r3, c)"
    by (cases "pool_copy_week e g t f b")
  have ka: "tbl_schedule_changes a = tbl_schedule_changes w"
    using pool_select_week_keeps [OF s] by simp
  have kb: "tbl_schedule_changes b = tbl_schedule_changes a"
    using pool_delete_week_keeps [OF d] by simp
  have kc: "tbl_schedule_changes c = tbl_schedule_changes b"
    using pool_copy_week_keeps [OF k] by simp
  have "w1 = a \<or> w1 = b \<or> w1 = c
      \<or> (\<exists>n rest r'. logChange e (JNum n # rest) c = (r', w1))"
    using assms s d k
    by (auto simp: copy_week_try_def split: sum.splits if_splits prod.splits)
  then show ?thesis
    using ka kb kc logChange_positional by (elim disjE exE) fastforce+
qed

lemma clear_week_try_audit:
  assumes "clear_week_try e u g wk w = (r, w1)"
  shows "tbl_schedule_changes w1 = tbl_schedule_changes w
      \<or> tbl_schedule_changes w1 = tbl_schedule_changes w @ [null_change]"
proof -
  obtain r1 a where s: "pool_select_week e g wk w = (r1, a)"
    by (cases "pool_select_week e g wk w")
  obtain r2 b where d: "pool_delete_week e g wk a = (r2, b)"
    by (cases "pool_delete_week e g wk a")
  have ka: "tbl_schedule_changes a = tbl_schedule_changes w"
    using pool_select_week_keeps [OF s] by simp
  have kb: "tbl_schedule_changes b = tbl_schedule_changes a"
    using pool_delete_week_keeps [OF d] by simp
  have "w1 = a \<or> w1 = b \<or> (\<exists>n rest r'. logChange e (JNum n # rest) b = (r', w1))"
    using assms s d
    by (auto simp: clear_week_try_def split: sum.splits if_splits prod.splits)
  then show ?thesis
    using ka kb logChange_positional by (elim disjE exE) fastforce+
qed

lemma replace_teacher_try_audit:
  assumes "replace_teacher_try e u g old new w = (r, w1)"
  shows "tbl_schedule_changes w1 = tbl_schedule_changes w
      \<or> tbl_schedule_changes w1 = tbl_schedule_changes w @ [null_change]"
proof -
  obtain r1 a where s: "pool_select_teacher e g (trim old) w = (r1, a)"
    by (cases "pool_select_teacher e g (trim old) w")
  obtain r2 b where d: "pool_update_teacher e (trim new) g (trim old) a = (r2, b)"
    by (cases "pool_update_teacher e (trim new) g (trim old) a")
  have ka: "tbl_schedule_changes a = tbl_schedule_changes w"
    using pool_select_teacher_keeps [OF s] by simp
  have kb: "tbl_schedule_changes b = tbl_schedule_changes a"
    using pool_update_teacher_keeps [OF d] by simp
  have "w1 = a \<or> w1 = b \<or> (\<exists>n rest r'. logChange e (JNum n # rest) b = (r', w1))"
    using assms s d
    by (auto simp: replace_teacher_try_def split: sum.splits if_splits prod.splits)
  then show ?thesis
    using ka kb logChange_positional by (elim disjE exE) fastforce+
qed

section \<open>The academic week\<close>




text \<open>
  C6. The claim expects week 1, odd, on 2023-09-01. At every time of the local day
  2023-09-01, in every time zone (the offset of local time from UTC is no more than a
  day, which keeps the dates within the range of \<open>Date\<close>), \<open>getWeekInfo\<close> with offset 0
  returns the week from 2023-08-28 to 2023-09-03 with \<open>weekNumber = 0\<close> and
  \<open>isEven = true\<close>: the Monday lies four days before the first of September,
  \<open>diffDays\<close> is -4, and \<open>Math.floor(-4 / 7) + 1\<close> is 0.
\<close>

theorem getWeekInfo_first_of_september_2023:
  assumes "Day (now + tz) = Day (midnight_UTC 2023 8 1)" and "\<bar>tz\<bar> \<le> msPerDay"
  shows "getWeekInfo tz now 0 =
       \<lparr> weekNumber = Some 0, isEven = True, weekType = ''chetnaya'',
         weekStart = ''2023-08-28'', weekEnd = ''2023-09-03'' \<rparr>"
proof -
  have d0: "Day (midnight_UTC 2023 8 1) = 19601"
    by code_simp
  have day: "Day (now + tz) = 19601"
    using assms(1) d0 by simp
  have month: "getMonth tz now = 8" and year: "getFullYear tz now = 2023"
  proof -
    have "MonthFromDay 19601 = 8" by code_simp
    then show "getMonth tz now = 8" by (simp add: getMonth_def day)
    have "YearFromDay 19601 = 2023" by code_simp
    then show "getFullYear tz now = 2023" by (simp add: getFullYear_def day)
  qed
  have dow: "getDay tz now = 5"
    by (simp add: getDay_def WeekDay_def day)
  have lo: "19601 * msPerDay \<le> now + tz" and hi: "now + tz < 19601 * msPerDay + msPerDay"
    using Day_bounds [OF day] by simp_all
  have tzb: "- msPerDay \<le> tz" "tz \<le> msPerDay"
    using assms(2) by simp_all
  have v0: "\<bar>now\<bar> \<le> maxTime"
    and v1: "\<bar>now + - 4 * msPerDay\<bar> \<le> maxTime"
    and v2: "\<bar>now + - 4 * msPerDay + 6 * msPerDay\<bar> \<le> maxTime"
    and v3: "\<bar>19601 * msPerDay - tz\<bar> \<le> maxTime"
    using lo hi tzb by (simp_all add: msPerDay_def maxTime_def)
  have "midnight_UTC 2023 8 1 = 19601 * msPerDay"
    by code_simp
  then have ays: "academicYearStart_of tz now = Some (19601 * msPerDay - tz)"
    using TimeClip_valid [OF v3]
    by (simp add: academicYearStart_of_def month year Date_local_def full_year_def)
  have ws: "weekStart_of tz now 0 = Some (now + - 4 * msPerDay)"
    using TimeClip_valid [OF v0] TimeClip_valid [OF v1]
    by (simp add: weekStart_of_unfold dow)
  have we: "weekEnd_of tz now 0 = Some (now + - 4 * msPerDay + 6 * msPerDay)"
    using TimeClip_valid [OF v2] by (simp add: weekEnd_of_unfold ws)
  have dws: "Day (now + - 4 * msPerDay + tz) = 19597"
    using Day_local_shift [of now "- 4" tz] by (simp add: day)
  have dwe: "Day (now + - 4 * msPerDay + 6 * msPerDay + tz) = 19603"
    using Day_local_shift [of "now + - 4 * msPerDay" 6 tz] dws by simp
  have "now + - 4 * msPerDay - (19601 * msPerDay - tz) = (now + tz) + (- 19605) * msPerDay"
    by simp
  then have "(now + - 4 * msPerDay - (19601 * msPerDay - tz)) div msPerDay =
      Day (now + tz) + (- 19605)"
    using Day_shift [of "now + tz" "- 19605"] by (simp only: Day_def)
  then have diff: "(now + - 4 * msPerDay - (19601 * msPerDay - tz)) div (1000 * 60 * 60 * 24) = - 4"
    by (simp add: day msPerDay_def)
  have fs: "formatLocalDate tz (Some (now + - 4 * msPerDay)) = ''2023-08-28''"
  proof -
    have "formatLocalDate 0 (Some (19597 * msPerDay)) = ''2023-08-28''" by code_simp
    then show ?thesis using formatLocalDate_day [OF dws] by simp
  qed
  have fe: "formatLocalDate tz (Some (now + - 4 * msPerDay + 6 * msPerDay)) = ''2023-09-03''"
  proof -
    have "formatLocalDate 0 (Some (19603 * msPerDay)) = ''2023-09-03''" by code_simp
    then show ?thesis using formatLocalDate_day [OF dwe] by simp
  qed
  have dd: "(case (Some (now + - 4 * msPerDay), Some (19601 * msPerDay - tz)) of
        (Some ws, Some ays) \<Rightarrow> Some ((ws - ays) div (1000 * 60 * 60 * 24))
      | _ \<Rightarrow> None) = Some (- 4)"
    by (simp only: prod.case option.case diff)
  show ?thesis
    unfolding getWeekInfo_def Let_def ws we ays fs fe dd
    by (simp add: mod2_is_zero_def)
qed

text \<open>The same at noon, Moscow time, of 2023-09-01.\<close>

theorem getWeekInfo_first_of_september_2023_witness:
  "formatLocalDate 10800000 (Some (midnight_UTC 2023 8 1 + 32400000)) = ''2023-09-01''
   \<and> Day (midnight_UTC 2023 8 1 + 32400000 + 10800000) = Day (midnight_UTC 2023 8 1)
   \<and> \<bar>10800000\<bar> \<le> msPerDay
   \<and> weekNumber (getWeekInfo 10800000 (midnight_UTC 2023 8 1 + 32400000) 0) = Some 0
   \<and> isEven (getWeekInfo 10800000 (midnight_UTC 2023 8 1 + 32400000) 0)
   \<and> weekStart (getWeekInfo 10800000 (midnight_UTC 2023 8 1 + 32400000) 0) = ''2023-08-28''
   \<and> weekEnd (getWeekInfo 10800000 (midnight_UTC 2023 8 1 + 32400000) 0) = ''2023-09-03''"
proof -
  have f: "formatLocalDate 10800000 (Some (midnight_UTC 2023 8 1 + 32400000)) = ''2023-09-01''"
    by code_simp
  have d: "Day (midnight_UTC 2023 8 1 + 32400000 + 10800000) = Day (midnight_UTC 2023 8 1)"
    by code_simp
  have z: "\<bar>10800000\<bar> \<le> msPerDay"
    by (simp add: msPerDay_def)
  show ?thesis
    using getWeekInfo_first_of_september_2023 [OF d z] f d z by simp
qed

section \<open>The dates of a series\<close>

text \<open>
  C8. For every weekday (so for 0..5) and every time zone, the dates generated for
  ANY (0) are, as a set, those generated for EVEN (1) together with those generated
  for ODD (2), and no date is generated for both EVEN and ODD.
\<close>

theorem generateDates_any_even_odd:
  "set (generateDates tz dayOfWeek 0) =
     set (generateDates tz dayOfWeek 1) \<union> set (generateDates tz dayOfWeek 2)
   \<and> set (generateDates tz dayOfWeek 1) \<inter> set (generateDates tz dayOfWeek 2) = {}"
proof -
  have m1: "week_match 1 b = b" and m2: "week_match 2 b = (\<not> b)" for b
    by (simp_all add: week_match_def)
  have e: "t \<in> set (generateDates tz dayOfWeek 1) \<longleftrightarrow>
      t \<in> set (generateDates tz dayOfWeek 0) \<and> mod2_is_zero (getWeekNumber tz t)" for t
    unfolding generateDates_def Let_def
    by (subst generateDates_loop_select) (simp add: m1)
  have o: "t \<in> set (generateDates tz dayOfWeek 2) \<longleftrightarrow>
      t \<in> set (generateDates tz dayOfWeek 0) \<and> \<not> mod2_is_zero (getWeekNumber tz t)" for t
    unfolding generateDates_def Let_def
    by (subst generateDates_loop_select) (simp add: m2)
  show ?thesis
    using e o by blast
qed

section \<open>Replacing the schedule of a day\<close>





text \<open>
  C1. A call of \<open>updateScheduleByDay\<close> enters its transaction when the caller is an
  administrator, the three body fields are present and the date is not in the past; the
  connection it takes from the pool has no transaction open. If then a step fails
  (\<open>BEGIN\<close>, the \<open>SELECT\<close>, the \<open>DELETE\<close>, the check or the \<open>INSERT\<close> of a lesson, or
  \<open>COMMIT\<close>), the handler answers 500 with the server-error message, the table of
  lessons is exactly as it was before the call (no row of the new list is stored, the
  rows of the day are as they were), no transaction stays open, and the statements sent
  begin with \<open>BEGIN\<close> and end with \<open>ROLLBACK\<close>.
\<close>

theorem updateScheduleByDay_failing_step:
  assumes "role u = ''admin''" "d \<noteq> []" "g \<noteq> 0"
    and "\<not> (\<exists>t. Date_parse e d = Some t \<and> Day (t + tz_offset e) < Day (now + tz_offset e))"
    and "tx_snapshot w = None"
    and "step_fails e d g ls w"
  shows "fst (updateScheduleByDay e now u (Some d) (Some g) (Some ls) w) =
      \<lparr>status = 500, message = ServerError\<rparr>
    \<and> tbl_lessons (snd (updateScheduleByDay e now u (Some d) (Some g) (Some ls) w)) =
      tbl_lessons w
    \<and> tx_snapshot (snd (updateScheduleByDay e now u (Some d) (Some g) (Some ls) w)) = None
    \<and> (\<exists>qs. queries (snd (updateScheduleByDay e now u (Some d) (Some g) (Some ls) w)) =
          queries w @ QBegin # qs @ [QRollback])"
proof -
  obtain r0 w0 where t: "update_day_try e u d g ls w = (r0, w0)"
    by (cases "update_day_try e u d g ls w")
  have "isl r0"
    using update_day_try_fails [of e u d g ls w] assms(6) t by simp
  then obtain err where t': "update_day_try e u d g ls w = (Inl err, w0)"
    using t by (cases r0) simp_all
  have call: "updateScheduleByDay e now u (Some d) (Some g) (Some ls) w =
      (\<lparr>status = 500, message = ServerError\<rparr>, client_rollback w0)"
    using updateScheduleByDay_entered [OF assms(1-4)] t' by simp
  obtain qs where "queries w0 = queries w @ QBegin # qs"
    using update_day_try_begins [OF t'] by blast
  then have "queries (client_rollback w0) = queries w @ QBegin # qs @ [QRollback]"
    by (simp add: client_rollback_queries)
  then show ?thesis
    using update_day_try_failed [OF assms(5) t'] by (simp add: call)
qed

text \<open>
  Three failures after a first lesson was inserted: a second \<open>INSERT\<close> that fails for a
  reason of the connection, a \<open>COMMIT\<close> that fails, and a second row that the table
  refuses.
\<close>

theorem updateScheduleByDay_failing_step_witness:
  "role ex_admin = ''admin'' \<and> tx_snapshot ex_world = None
   \<and> Date_parse ex_env_fault ''2099-01-01'' = Some (midnight_UTC 2099 0 1)
   \<and> Day (ex_now + tz_offset ex_env_fault) \<le> Day (midnight_UTC 2099 0 1 + tz_offset ex_env_fault)
   \<and> step_fails ex_env_fault ''2099-01-01'' 1 [ex_lesson, ex_lesson] ex_world
   \<and> fst (updateScheduleByDay ex_env_fault ex_now ex_admin (Some ''2099-01-01'') (Some 1)
        (Some [ex_lesson, ex_lesson]) ex_world) = \<lparr>status = 500, message = ServerError\<rparr>
   \<and> tbl_lessons (snd (updateScheduleByDay ex_env_fault ex_now ex_admin (Some ''2099-01-01'')
        (Some 1) (Some [ex_lesson, ex_lesson]) ex_world)) = tbl_lessons ex_world
   \<and> queries (snd (updateScheduleByDay ex_env_fault ex_now ex_admin (Some ''2099-01-01'')
        (Some 1) (Some [ex_lesson, ex_lesson]) ex_world)) =
        [QBegin, QSelectDay, QDeleteDay, QInsertLesson, QInsertLesson, QRollback]
   \<and> step_fails ex_env_fault ''2099-01-01'' 1 [ex_lesson] ex_world
   \<and> fst (updateScheduleByDay ex_env_fault ex_now ex_admin (Some ''2099-01-01'') (Some 1)
        (Some [ex_lesson]) ex_world) = \<lparr>status = 500, message = ServerError\<rparr>
   \<and> tbl_lessons (snd (updateScheduleByDay ex_env_fault ex_now ex_admin (Some ''2099-01-01'')
        (Some 1) (Some [ex_lesson]) ex_world)) = tbl_lessons ex_world
   \<and> queries (snd (updateScheduleByDay ex_env_fault ex_now ex_admin (Some ''2099-01-01'')
        (Some 1) (Some [ex_lesson]) ex_world)) =
        [QBegin, QSelectDay, QDeleteDay, QInsertLesson, QCommit, QRollback]
   \<and> Date_parse ex_env_refuse ''2099-01-01'' = Some (midnight_UTC 2099 0 1)
   \<and> Day (ex_now + tz_offset ex_env_refuse) \<le>
        Day (midnight_UTC 2099 0 1 + tz_offset ex_env_refuse)
   \<and> \<not> malformed (ex_bad_lesson\<lparr>room := Some ''12''\<rparr>)
   \<and> step_fails ex_env_refuse ''2099-01-01'' 1
        [ex_lesson, ex_bad_lesson\<lparr>room := Some ''12''\<rparr>] ex_world
   \<and> fst (updateScheduleByDay ex_env_refuse ex_now ex_admin (Some ''2099-01-01'') (Some 1)
        (Some [ex_lesson, ex_bad_lesson\<lparr>room := Some ''12''\<rparr>]) ex_world) =
        \<lparr>status = 500, message = ServerError\<rparr>
   \<and> tbl_lessons (snd (updateScheduleByDay ex_env_refuse ex_now ex_admin (Some ''2099-01-01'')
        (Some 1) (Some [ex_lesson, ex_bad_lesson\<lparr>room := Some ''12''\<rparr>]) ex_world)) =
        tbl_lessons ex_world"
proof -
  let ?a = "updateScheduleByDay ex_env_fault ex_now ex_admin (Some ''2099-01-01'') (Some 1)
        (Some [ex_lesson, ex_lesson]) ex_world"
  let ?b = "updateScheduleByDay ex_env_fault ex_now ex_admin (Some ''2099-01-01'') (Some 1)
        (Some [ex_lesson]) ex_world"
  have r: "role ex_admin = ''admin''"
    by (simp add: ex_admin_def)
  have h: "tx_snapshot ex_world = None"
    by (simp add: ex_world_def)
  have d: "''2099-01-01'' \<noteq> []" and g: "(1::int) \<noteq> 0"
    by simp_all
  have p: "Date_parse ex_env_fault ''2099-01-01'' = Some (midnight_UTC 2099 0 1)"
    by code_simp
  have b: "Day (ex_now + tz_offset ex_env_fault) \<le>
      Day (midnight_UTC 2099 0 1 + tz_offset ex_env_fault)"
    by code_simp
  have np: "\<not> (\<exists>t. Date_parse ex_env_fault ''2099-01-01'' = Some t
      \<and> Day (t + tz_offset ex_env_fault) < Day (ex_now + tz_offset ex_env_fault))"
    using p b by auto
  have p': "Date_parse ex_env_refuse ''2099-01-01'' = Some (midnight_UTC 2099 0 1)"
    by code_simp
  have b': "Day (ex_now + tz_offset ex_env_refuse) \<le>
      Day (midnight_UTC 2099 0 1 + tz_offset ex_env_refuse)"
    by code_simp
  have np': "\<not> (\<exists>t. Date_parse ex_env_refuse ''2099-01-01'' = Some t
      \<and> Day (t + tz_offset ex_env_refuse) < Day (ex_now + tz_offset ex_env_refuse))"
    using p' b' by auto
  have s1: "step_fails ex_env_fault ''2099-01-01'' 1 [ex_lesson, ex_lesson] ex_world"
    by code_simp
  have s2: "step_fails ex_env_fault ''2099-01-01'' 1 [ex_lesson] ex_world"
    by code_simp
  have m: "\<not> malformed (ex_bad_lesson\<lparr>room := Some ''12''\<rparr>)"
    by code_simp
  have s3: "step_fails ex_env_refuse ''2099-01-01'' 1
      [ex_lesson, ex_bad_lesson\<lparr>room := Some ''12''\<rparr>] ex_world"
    by code_simp
  have qa: "queries (snd ?a) =
      [QBegin, QSelectDay, QDeleteDay, QInsertLesson, QInsertLesson, QRollback]"
    by code_simp
  have qb: "queries (snd ?b) =
      [QBegin, QSelectDay, QDeleteDay, QInsertLesson, QCommit, QRollback]"
    by code_simp
  show ?thesis
    using updateScheduleByDay_failing_step [OF r d g np h s1]
      updateScheduleByDay_failing_step [OF r d g np h s2]
      updateScheduleByDay_failing_step [OF r d g np' h s3]
      r h p b p' b' s1 s2 m s3 qa qb
    by simp
qed

text \<open>
  C5, as the claim states it, fails: a lesson without its room does not give a
  validation error (status 400) but the answer of the \<open>catch\<close> block, status 500 with
  the server-error message.
\<close>

theorem updateScheduleByDay_malformed_counterexample:
  "malformed ex_bad_lesson
   \<and> status (fst (updateScheduleByDay ex_env ex_now ex_admin (Some ''2099-01-01'') (Some 1)
        (Some [ex_lesson, ex_bad_lesson]) ex_world)) \<noteq> 400
   \<and> fst (updateScheduleByDay ex_env ex_now ex_admin (Some ''2099-01-01'') (Some 1)
        (Some [ex_lesson, ex_bad_lesson]) ex_world) = \<lparr>status = 500, message = ServerError\<rparr>"
  by code_simp

text \<open>
  C5, amended. When an administrator's request with the three body fields present and
  a date that is not in the past holds a lesson lacking \<open>start_time\<close>, \<open>end_time\<close>,
  \<open>subject\<close>, \<open>room\<close> or \<open>type\<close> (\<open>teacher_id\<close> may be absent), the handler answers 500
  with the server-error message, and the table of lessons is exactly as before the call:
  no entry of the new list is stored and the rows of the day are untouched.
\<close>

theorem updateScheduleByDay_malformed_lesson:
  assumes "tx_snapshot w = None" "role u = ''admin''" "d \<noteq> []" "g \<noteq> 0"
    and "\<not> (\<exists>t. Date_parse e d = Some t \<and> Day (t + tz_offset e) < Day (now + tz_offset e))"
    and "l \<in> set ls" "malformed l"
  shows "fst (updateScheduleByDay e now u (Some d) (Some g) (Some ls) w) =
      \<lparr>status = 500, message = ServerError\<rparr>
    \<and> tbl_lessons (snd (updateScheduleByDay e now u (Some d) (Some g) (Some ls) w)) =
      tbl_lessons w"
proof -
  have bad: "\<exists>l \<in> set ls. malformed l"
    using assms(6,7) by blast
  obtain r0 w0 where t: "update_day_try e u d g ls w = (r0, w0)"
    by (cases "update_day_try e u d g ls w")
  have "\<exists>err. r0 = Inl err"
  proof (cases r0)
    case (Inl err)
    then show ?thesis by simp
  next
    case (Inr x)
    obtain r1 a where b: "client_begin e w = (r1, a)" by (cases "client_begin e w")
    obtain r2 b where s: "client_select_day e d g a = (r2, b)"
      by (cases "client_select_day e d g a")
    obtain r3 c where dl: "client_delete_day e d g b = (r3, c)"
      by (cases "client_delete_day e d g b")
    obtain err w4 where i: "insert_lessons e d g ls c = (Inl err, w4)"
      using insert_lessons_malformed [OF bad] by blast
    have False
      using t Inr b s dl i
      by (cases r1; cases r2; cases r3) (simp_all add: update_day_try_def)
    then show ?thesis ..
  qed
  then obtain err where t': "update_day_try e u d g ls w = (Inl err, w0)"
    using t by blast
  have "updateScheduleByDay e now u (Some d) (Some g) (Some ls) w =
      (\<lparr>status = 500, message = ServerError\<rparr>, client_rollback w0)"
    using updateScheduleByDay_entered [OF assms(2-5)] t' by simp
  then show ?thesis
    using update_day_try_failed [OF assms(1) t'] by simp
qed

text \<open>A well-formed lesson followed by one without a room.\<close>

theorem updateScheduleByDay_malformed_lesson_witness:
  "tx_snapshot ex_world = None \<and> role ex_admin = ''admin''
   \<and> Date_parse ex_env ''2099-01-01'' = Some (midnight_UTC 2099 0 1)
   \<and> Day (ex_now + tz_offset ex_env) \<le> Day (midnight_UTC 2099 0 1 + tz_offset ex_env)
   \<and> ex_bad_lesson \<in> set [ex_lesson, ex_bad_lesson] \<and> malformed ex_bad_lesson
   \<and> fst (updateScheduleByDay ex_env ex_now ex_admin (Some ''2099-01-01'') (Some 1)
        (Some [ex_lesson, ex_bad_lesson]) ex_world) = \<lparr>status = 500, message = ServerError\<rparr>
   \<and> tbl_lessons (snd (updateScheduleByDay ex_env ex_now ex_admin (Some ''2099-01-01'') (Some 1)
        (Some [ex_lesson, ex_bad_lesson]) ex_world)) = tbl_lessons ex_world"
proof -
  have h: "tx_snapshot ex_world = None"
    by (simp add: ex_world_def)
  have r: "role ex_admin = ''admin''"
    by (simp add: ex_admin_def)
  have p: "Date_parse ex_env ''2099-01-01'' = Some (midnight_UTC 2099 0 1)"
    by code_simp
  have b: "Day (ex_now + tz_offset ex_env) \<le> Day (midnight_UTC 2099 0 1 + tz_offset ex_env)"
    by code_simp
  have np: "\<not> (\<exists>t. Date_parse ex_env ''2099-01-01'' = Some t
      \<and> Day (t + tz_offset ex_env) < Day (ex_now + tz_offset ex_env))"
    using p b by auto
  have m: "malformed ex_bad_lesson"
    by code_simp
  have i: "ex_bad_lesson \<in> set [ex_lesson, ex_bad_lesson]"
    by simp
  have d: "''2099-01-01'' \<noteq> []" and g: "(1::int) \<noteq> 0"
    by simp_all
  show ?thesis
    using updateScheduleByDay_malformed_lesson [OF h r d g np i m] h r p b m
    by simp
qed

text \<open>
  C3. When a call of \<open>updateScheduleByDay\<close> succeeds (status 200), a second call with
  the same date, group, lessons and user, at any later time and whatever it answers,
  leaves the lessons stored for the date and group, by their field values, as the first
  call left them: the lessons of the request, in their order.
\<close>

theorem updateScheduleByDay_idempotent:
  assumes "updateScheduleByDay e now1 u (Some d) (Some g) (Some ls) w = (r1, w1)"
    and "status r1 = 200"
    and "updateScheduleByDay e now2 u (Some d) (Some g) (Some ls) w1 = (r2, w2)"
  shows "day_lessons e d g w2 = day_lessons e d g w1
    \<and> (\<exists>dn. pg_date e d = Some dn \<and> day_lessons e d g w1 = map (stored_row dn g) ls)"
proof -
  obtain x where t1: "update_day_try e u d g ls w = (Inr x, w1)"
    using updateScheduleByDay_cases [OF assms(1)] assms(2) by auto
  obtain dn where dn: "pg_date e d = Some dn"
    and l1: "day_lessons e d g w1 = map (stored_row dn g) ls"
    using update_day_try_day_lessons [OF t1] by blast
  have s1: "tx_snapshot w1 = None"
    using update_day_try_ok [OF t1] by blast
  consider (same) "w2 = w1"
    | (saved) x2 where "update_day_try e u d g ls w1 = (Inr x2, w2)"
    | (failed) err w0 where "update_day_try e u d g ls w1 = (Inl err, w0)"
        "w2 = client_rollback w0"
    using updateScheduleByDay_cases [OF assms(3)] by auto
  then have "day_lessons e d g w2 = day_lessons e d g w1"
  proof cases
    case same
    then show ?thesis by simp
  next
    case saved
    then show ?thesis
      using update_day_try_day_lessons [OF saved] dn l1 by auto
  next
    case failed
    then have "tbl_lessons w2 = tbl_lessons w1"
      using update_day_try_failed [OF s1 failed(1)] by simp
    then show ?thesis by (simp add: day_lessons_def cong: option.case_cong)
  qed
  then show ?thesis using dn l1 by blast
qed

text \<open>Two lessons saved twice, a minute apart.\<close>

theorem updateScheduleByDay_idempotent_witness:
  "status (fst (updateScheduleByDay ex_env ex_now ex_admin (Some ''2099-01-01'') (Some 1)
        (Some [ex_lesson, ex_lesson]) ex_world)) = 200
   \<and> day_lessons ex_env ''2099-01-01'' 1
        (snd (updateScheduleByDay ex_env (ex_now + 60000) ex_admin (Some ''2099-01-01'') (Some 1)
           (Some [ex_lesson, ex_lesson])
           (snd (updateScheduleByDay ex_env ex_now ex_admin (Some ''2099-01-01'') (Some 1)
              (Some [ex_lesson, ex_lesson]) ex_world)))) =
       day_lessons ex_env ''2099-01-01'' 1
        (snd (updateScheduleByDay ex_env ex_now ex_admin (Some ''2099-01-01'') (Some 1)
           (Some [ex_lesson, ex_lesson]) ex_world))
   \<and> day_lessons ex_env ''2099-01-01'' 1
        (snd (updateScheduleByDay ex_env ex_now ex_admin (Some ''2099-01-01'') (Some 1)
           (Some [ex_lesson, ex_lesson]) ex_world)) =
       [stored_row 47117 1 ex_lesson, stored_row 47117 1 ex_lesson]"
proof -
  let ?a = "updateScheduleByDay ex_env ex_now ex_admin (Some ''2099-01-01'') (Some 1)
        (Some [ex_lesson, ex_lesson]) ex_world"
  have a: "status (fst ?a) = 200"
    by code_simp
  have d: "pg_date ex_env ''2099-01-01'' = Some 47117"
    by code_simp
  show ?thesis
    using updateScheduleByDay_idempotent [OF prod.collapse [symmetric] a prod.collapse [symmetric],
        of "ex_now + 60000"] a d
    by simp
qed

section \<open>The bulk operations\<close>

text \<open>
  C2. The claim expects \<open>copyWeek\<close> from a week to the same week to keep the
  templates of that week. Whenever such a call reports success, the group had templates
  in that week before the call and has none after it: the \<open>DELETE\<close> removes them and
  the \<open>INSERT ... SELECT\<close> then finds nothing to copy.
\<close>

theorem copyWeek_same_week_empties:
  assumes "fst (copyWeek e u (Some g) (Some p) (Some p) w) =
      \<lparr>bulk_status = 200, bulk_message = WeekCopied p p\<rparr>"
  shows "week_templates g p w \<noteq> []
    \<and> week_templates g p (snd (copyWeek e u (Some g) (Some p) (Some p) w)) = []"
proof -
  obtain r0 w0 where t: "copy_week_try e u g p p w = (r0, w0)"
    by (cases "copy_week_try e u g p p w")
  have g: "g \<noteq> 0" and r0: "r0 = Inr \<lparr>bulk_status = 200, bulk_message = WeekCopied p p\<rparr>"
    and w0: "snd (copyWeek e u (Some g) (Some p) (Some p) w) = w0"
    using assms t by (auto simp: copyWeek_def split: if_splits sum.splits)
  obtain r1 a where s: "pool_select_week e g p w = (r1, a)"
    by (cases "pool_select_week e g p w")
  obtain r2 b where d: "pool_delete_week e g p a = (r2, b)"
    by (cases "pool_delete_week e g p a")
  obtain r3 c where k: "pool_copy_week e g p p b = (r3, c)"
    by (cases "pool_copy_week e g p p b")
  obtain src where r1: "r1 = Inr src" and src: "src \<noteq> []"
    using t r0 s by (cases r1) (auto simp: copy_week_try_def split: if_splits)
  obtain n where r2: "r2 = Inr n"
    using t r0 s d r1 src by (cases r2) (auto simp: copy_week_try_def)
  have r3: "r3 = Inr ()"
    using t r0 s d k r1 r2 src by (cases r3) (auto simp: copy_week_try_def)
  have "\<exists>n rest r'. logChange e (JNum n # rest) c = (r', w0)"
    using t r0 s d k r1 r2 r3 src by (auto simp: copy_week_try_def split: sum.splits prod.splits)
  then have tw0: "tbl_templates w0 = tbl_templates c"
    using logChange_positional by blast
  have ta: "tbl_templates a = tbl_templates w" and sel: "src = filter (in_week g p) (tbl_templates w)"
    using pool_select_week_keeps [OF s] r1 by simp_all
  have tb: "tbl_templates b = filter (\<lambda>r. \<not> in_week g p r) (tbl_templates a)"
    using pool_delete_week_keeps [OF d] r2 by simp
  have none: "filter (in_week g p) (tbl_templates b) = []"
    by (simp add: tb)
  then have tc: "tbl_templates c = tbl_templates b"
    using pool_copy_week_keeps [OF k] by simp
  have "week_templates g p w0 = []"
    by (simp add: week_templates_def tw0 tc none)
  moreover have "week_templates g p w \<noteq> []"
    using src sel by (simp add: week_templates_def)
  ultimately show ?thesis
    using w0 by simp
qed

text \<open>Group 5 loses its two templates of the odd weeks.\<close>

theorem copyWeek_same_week_empties_witness:
  "fst (copyWeek ex_env ex_admin (Some 5) (Some 2) (Some 2) ex_world) =
       \<lparr>bulk_status = 200, bulk_message = WeekCopied 2 2\<rparr>
   \<and> length (week_templates 5 2 ex_world) = 2
   \<and> week_templates 5 2 (snd (copyWeek ex_env ex_admin (Some 5) (Some 2) (Some 2) ex_world)) = []"
proof -
  have ok: "fst (copyWeek ex_env ex_admin (Some 5) (Some 2) (Some 2) ex_world) =
      \<lparr>bulk_status = 200, bulk_message = WeekCopied 2 2\<rparr>"
    by code_simp
  have before: "length (week_templates 5 2 ex_world) = 2"
    by code_simp
  show ?thesis
    using copyWeek_same_week_empties [OF ok] ok before by simp
qed

text \<open>
  C7. The claim expects an audit record with the administrator's id and the name of
  the operation. \<open>copyWeek\<close>, \<open>clearWeek\<close> and \<open>replaceTeacher\<close> pass positional
  arguments to \<open>logChange\<close>, which destructures its first argument: the number has none
  of the properties. Whatever the request, each of the three leaves the audit log as it
  was or adds one record whose columns are all \<open>NULL\<close>.
\<close>

theorem bulk_operations_audit_row:
  "(tbl_schedule_changes (snd (copyWeek e u group_id from_week to_week w)) =
      tbl_schedule_changes w
    \<or> tbl_schedule_changes (snd (copyWeek e u group_id from_week to_week w)) =
      tbl_schedule_changes w @ [null_change])
   \<and> (tbl_schedule_changes (snd (clearWeek e u group_id week w)) = tbl_schedule_changes w
    \<or> tbl_schedule_changes (snd (clearWeek e u group_id week w)) =
      tbl_schedule_changes w @ [null_change])
   \<and> (tbl_schedule_changes (snd (replaceTeacher e u group_id old_teacher new_teacher w)) =
      tbl_schedule_changes w
    \<or> tbl_schedule_changes (snd (replaceTeacher e u group_id old_teacher new_teacher w)) =
      tbl_schedule_changes w @ [null_change])"
proof (intro conjI)
  show "tbl_schedule_changes (snd (copyWeek e u group_id from_week to_week w)) =
      tbl_schedule_changes w
    \<or> tbl_schedule_changes (snd (copyWeek e u group_id from_week to_week w)) =
      tbl_schedule_changes w @ [null_change]"
    using copy_week_try_audit
    by (fastforce simp: copyWeek_def split: option.splits prod.splits sum.splits)
  show "tbl_schedule_changes (snd (clearWeek e u group_id week w)) = tbl_schedule_changes w
    \<or> tbl_schedule_changes (snd (clearWeek e u group_id week w)) =
      tbl_schedule_changes w @ [null_change]"
    using clear_week_try_audit
    by (fastforce simp: clearWeek_def split: option.splits prod.splits sum.splits)
  show "tbl_schedule_changes (snd (replaceTeacher e u group_id old_teacher new_teacher w)) =
      tbl_schedule_changes w
    \<or> tbl_schedule_changes (snd (replaceTeacher e u group_id old_teacher new_teacher w)) =
      tbl_schedule_changes w @ [null_change]"
    using replace_teacher_try_audit
    by (fastforce simp: replaceTeacher_def split: option.splits prod.splits sum.splits)
qed

text \<open>
  The three operations, each succeeding for the administrator with id 7: the record
  added names neither the administrator nor the operation.
\<close>

theorem bulk_operations_audit_row_witness:
  "fst (copyWeek ex_env ex_admin (Some 5) (Some 2) (Some 1) ex_world) =
       \<lparr>bulk_status = 200, bulk_message = WeekCopied 2 1\<rparr>
   \<and> tbl_schedule_changes (snd (copyWeek ex_env ex_admin (Some 5) (Some 2) (Some 1) ex_world)) =
       [null_change]
   \<and> fst (clearWeek ex_env ex_admin (Some 5) (Some 2) ex_world) =
       \<lparr>bulk_status = 200, bulk_message = Deleted 2\<rparr>
   \<and> tbl_schedule_changes (snd (clearWeek ex_env ex_admin (Some 5) (Some 2) ex_world)) =
       [null_change]
   \<and> fst (replaceTeacher ex_env ex_admin (Some 5) (Some ''Ivanov'') (Some ''Petrov'') ex_world) =
       \<lparr>bulk_status = 200, bulk_message = Replaced 3\<rparr>
   \<and> tbl_schedule_changes
        (snd (replaceTeacher ex_env ex_admin (Some 5) (Some ''Ivanov'') (Some ''Petrov'') ex_world)) =
       [null_change]
   \<and> admin_id null_change \<noteq> JNum (user_id ex_admin)
   \<and> action_type null_change \<noteq> JStr ''copy_week''
   \<and> action_type null_change \<noteq> JStr ''clear_week''
   \<and> action_type null_change \<noteq> JStr ''replace_teacher''"
proof -
  have empty: "tbl_schedule_changes ex_world = []"
    by (simp add: ex_world_def)
  have copied: "fst (copyWeek ex_env ex_admin (Some 5) (Some 2) (Some 1) ex_world) =
      \<lparr>bulk_status = 200, bulk_message = WeekCopied 2 1\<rparr>"
    and copy_log: "length (tbl_schedule_changes
      (snd (copyWeek ex_env ex_admin (Some 5) (Some 2) (Some 1) ex_world))) = 1"
    by code_simp+
  have cleared: "fst (clearWeek ex_env ex_admin (Some 5) (Some 2) ex_world) =
      \<lparr>bulk_status = 200, bulk_message = Deleted 2\<rparr>"
    and clear_log: "length (tbl_schedule_changes
      (snd (clearWeek ex_env ex_admin (Some 5) (Some 2) ex_world))) = 1"
    by code_simp+
  have replaced: "fst (replaceTeacher ex_env ex_admin (Some 5) (Some ''Ivanov'') (Some ''Petrov'')
      ex_world) = \<lparr>bulk_status = 200, bulk_message = Replaced 3\<rparr>"
    and replace_log: "length (tbl_schedule_changes
      (snd (replaceTeacher ex_env ex_admin (Some 5) (Some ''Ivanov'') (Some ''Petrov'')
         ex_world))) = 1"
    by code_simp+
  have null: "admin_id null_change \<noteq> JNum (user_id ex_admin)"
      "action_type null_change \<noteq> JStr ''copy_week''"
      "action_type null_change \<noteq> JStr ''clear_week''"
      "action_type null_change \<noteq> JStr ''replace_teacher''"
    by (simp_all add: null_change_def)
  show ?thesis
    using bulk_operations_audit_row [of ex_env ex_admin "Some 5" "Some 2" "Some 1" ex_world
        "Some 2" "Some ''Ivanov''" "Some ''Petrov''"]
      empty copied copy_log cleared clear_log replaced replace_log null
    by auto
qed

end
